theory Spec2Isabelle
  imports Complex_Main
begin

section \<open>JavaScript values\<close>

text \<open>
  The analyser is TypeScript; each of its functions is a function here, with the
  values of JavaScript modelled as follows.
  \<^item> A string is a \<open>string\<close>, one \<open>char\<close> for each UTF-16 code unit; the model covers
    the texts whose code units are below 256.
  \<^item> A number that holds a count or a total of lines is an \<open>int\<close>, and a ratio is a
    \<open>rat\<close>: the arithmetic is exact, as that of the doubles is for the counts of a
    repository. \<open>NaN\<close> is \<open>None\<close> in an \<open>int option\<close>; where a number would become
    \<open>NaN\<close> or infinite in a result, the model stops with the error \<open>NonFinite\<close>.
  \<^item> A \<open>Map\<close> is an association list and a \<open>Set\<close> a list without repetition, both
    in insertion order, which is the order an iteration visits them in.
  \<^item> A thrown exception is the left summand of a result.
\<close>

definition TAB :: char where
  "TAB = CHR 0x09"

definition LF :: char where
  "LF = CHR 0x0A"

definition is_space :: "char \<Rightarrow> bool" where
  \<comment> \<open>WhiteSpace and LineTerminator code units below 256: what \<open>trim\<close>, \<open>\s\<close> and
      \<open>parseInt\<close> treat as white space.\<close>
  "is_space c \<longleftrightarrow> c \<in> {CHR 0x09, CHR 0x0A, CHR 0x0B, CHR 0x0C, CHR 0x0D, CHR 0x20, CHR 0xA0}"

definition trim :: "string \<Rightarrow> string" where
  "trim s = rev (dropWhile is_space (rev (dropWhile is_space s)))"

fun split_on :: "char \<Rightarrow> string \<Rightarrow> string \<Rightarrow> string list" where
  \<comment> \<open>\<open>s.split(sep)\<close> for a one-character separator; the third argument is the field
      read so far.\<close>
  "split_on sep [] cur = [cur]"
| "split_on sep (c # cs) cur =
     (if c = sep then cur # split_on sep cs [] else split_on sep cs (cur @ [c]))"

definition split :: "char \<Rightarrow> string \<Rightarrow> string list" where
  "split sep s = split_on sep s []"

definition is_digit :: "char \<Rightarrow> bool" where
  "is_digit c \<longleftrightarrow> 48 \<le> (of_char c :: nat) \<and> (of_char c :: nat) \<le> 57"

definition digit_val :: "char \<Rightarrow> int" where
  "digit_val c = of_char c - 48"

definition digits_val :: "string \<Rightarrow> int" where
  "digits_val ds = foldl (\<lambda>a c. 10 * a + digit_val c) 0 ds"

definition parseInt :: "string \<Rightarrow> int option" where
  \<comment> \<open>\<open>parseInt(s, 10)\<close>: leading white space, an optional sign, the longest run of
      decimal digits; \<open>NaN\<close> when there is no digit.\<close>
  "parseInt s =
     (let t = dropWhile is_space s;
          neg = (t \<noteq> [] \<and> hd t = CHR ''-'');
          u = (if t \<noteq> [] \<and> (hd t = CHR ''-'' \<or> hd t = CHR ''+'') then tl t else t);
          ds = takeWhile is_digit u
      in if ds = [] then None
         else Some (if neg then - digits_val ds else digits_val ds))"

definition lower_char :: "char \<Rightarrow> char" where
  \<comment> \<open>\<open>toLowerCase\<close> on one code unit below 256: A to Z, and the Latin-1 capitals
      0xC0 to 0xDE without the multiplication sign 0xD7.\<close>
  "lower_char c =
     (let n = (of_char c :: nat)
      in if (65 \<le> n \<and> n \<le> 90) \<or> (192 \<le> n \<and> n \<le> 222 \<and> n \<noteq> 215)
         then char_of (n + 32) else c)"

definition toLowerCase :: "string \<Rightarrow> string" where
  "toLowerCase s = map lower_char s"

fun bump :: "'k \<Rightarrow> ('k \<times> int) list \<Rightarrow> ('k \<times> int) list" where
  \<comment> \<open>\<open>m.set(k, (m.get(k) || 0) + 1)\<close>: a key keeps its place, a new key goes last.\<close>
  "bump k [] = [(k, 1)]"
| "bump k ((k', v) # m) = (if k = k' then (k', v + 1) # m else (k', v) # bump k m)"

fun add_to :: "'k \<Rightarrow> int \<Rightarrow> ('k \<times> int) list \<Rightarrow> ('k \<times> int) list" where
  \<comment> \<open>\<open>m.set(k, (m.get(k) || 0) + n)\<close>.\<close>
  "add_to k n [] = [(k, n)]"
| "add_to k n ((k', v) # m) = (if k = k' then (k', v + n) # m else (k', v) # add_to k n m)"

fun lookup :: "('k \<times> 'v) list \<Rightarrow> 'k \<Rightarrow> 'v option" where
  "lookup [] k = None"
| "lookup ((k', v) # m) k = (if k = k' then Some v else lookup m k)"

definition insert_by :: "('a \<Rightarrow> 'a \<Rightarrow> bool) \<Rightarrow> 'a \<Rightarrow> 'a list \<Rightarrow> 'a list" where
  \<comment> \<open>One step of a stable sort: \<open>x\<close> moves left past the elements \<open>y\<close> of the sorted
      prefix for which the comparison function gives \<open>compare(y, x) > 0\<close>, written
      \<open>gt y x\<close>.\<close>
  "insert_by gt x ys =
     rev (dropWhile (\<lambda>y. gt y x) (rev ys)) @ x # rev (takeWhile (\<lambda>y. gt y x) (rev ys))"

definition sort_by :: "('a \<Rightarrow> 'a \<Rightarrow> bool) \<Rightarrow> 'a list \<Rightarrow> 'a list" where
  \<comment> \<open>\<open>xs.sort(compare)\<close>, a stable sort (ECMAScript 2019).\<close>
  "sort_by gt xs = foldl (\<lambda>acc x. insert_by gt x acc) [] xs"

section \<open>The host: the clock, the time zone and the date parser\<close>

text \<open>
  What the analyser takes from its environment is a parameter of the model:
  \<open>Date_parse\<close> is \<open>new Date(s).getTime()\<close> for a string \<open>s\<close> (\<open>None\<close> for an
  Invalid Date), \<open>Date_now\<close> the instant the clock shows, and the time zone is two
  functions, both in milliseconds: \<open>LocalTZA\<close> is the offset of local time from UTC at
  an instant, and \<open>LocalTZA_local\<close> the offset by which a local time is read, which for a
  local time that a transition skips or repeats is the offset before the transition
  (\<open>LocalTZA(t, true)\<close> and \<open>LocalTZA(t, false)\<close> of ECMAScript). The clock stands still
  during one call.

  A \<open>Date\<close> is its time value, an \<open>int option\<close>. What \<open>moment\<close> derives from a date is
  computed from the local time \<open>t + LocalTZA t\<close>: the day of the week, the hour, and
  the texts \<open>YYYY-MM-DD\<close> and \<open>YYYY-MM\<close>.
\<close>

record host =
  Date_parse :: "string \<Rightarrow> int option"
  LocalTZA :: "int \<Rightarrow> int"
  LocalTZA_local :: "int \<Rightarrow> int"
  Date_now :: int

definition msPerDay :: int where
  "msPerDay = 86400000"

definition msPerHour :: int where
  "msPerHour = 3600000"

definition local_ms :: "host \<Rightarrow> int \<Rightarrow> int" where
  "local_ms h t = t + LocalTZA h t"

definition local_day :: "host \<Rightarrow> int \<Rightarrow> int" where
  \<comment> \<open>The local calendar day of an instant, counted from 1970-01-01.\<close>
  "local_day h t = local_ms h t div msPerDay"

definition civil :: "int \<Rightarrow> int \<times> int \<times> int" where
  \<comment> \<open>Year, month (1 to 12) and day of the month of a day number, in the
      proleptic Gregorian calendar.\<close>
  "civil z =
     (let z' = z + 719468;
          era = z' div 146097;
          doe = z' - era * 146097;
          yoe = (doe - doe div 1460 + doe div 36524 - doe div 146096) div 365;
          doy = doe - (365 * yoe + yoe div 4 - yoe div 100);
          mp = (5 * doy + 2) div 153;
          d = doy - (153 * mp + 2) div 5 + 1;
          m = (if mp < 10 then mp + 3 else mp - 9);
          y = yoe + era * 400 + (if m \<le> 2 then 1 else 0)
      in (y, m, d))"

definition days_from_civil :: "int \<Rightarrow> int \<Rightarrow> int \<Rightarrow> int" where
  \<comment> \<open>The day number of a date of the proleptic Gregorian calendar.\<close>
  "days_from_civil y m d =
     (let y' = (if m \<le> 2 then y - 1 else y);
          era = y' div 400;
          yoe = y' - era * 400;
          doy = (153 * (if m > 2 then m - 3 else m + 9) + 2) div 5 + d - 1;
          doe = yoe * 365 + yoe div 4 - yoe div 100 + doy
      in era * 146097 + doe - 719468)"

definition day_of :: "host \<Rightarrow> int option \<Rightarrow> int option" where
  \<comment> \<open>\<open>moment(d).day()\<close>: 0 is Sunday; \<open>NaN\<close> for an Invalid Date.\<close>
  "day_of h d = map_option (\<lambda>t. (local_day h t + 4) mod 7) d"

definition hour_of :: "host \<Rightarrow> int option \<Rightarrow> int option" where
  \<comment> \<open>\<open>moment(d).hour()\<close>; \<open>NaN\<close> for an Invalid Date.\<close>
  "hour_of h d = map_option (\<lambda>t. (local_ms h t div msPerHour) mod 24) d"

definition date_key :: "host \<Rightarrow> int option \<Rightarrow> int option" where
  \<comment> \<open>The local calendar day of a date; \<open>None\<close> for an Invalid Date.\<close>
  "date_key h d = map_option (local_day h) d"

definition digit_char :: "int \<Rightarrow> char" where
  "digit_char n = ''0123456789'' ! nat n"

function digits_of :: "int \<Rightarrow> string" where
  \<comment> \<open>The decimal digits of a number that is not negative.\<close>
  "digits_of n = (if n < 10 then [digit_char n] else digits_of (n div 10) @ [digit_char (n mod 10)])"
  by pat_completeness auto

termination
  by (relation "measure nat") auto

declare digits_of.simps [simp del]

definition zeroFill :: "int \<Rightarrow> nat \<Rightarrow> string" where
  \<comment> \<open>\<open>zeroFill(number, targetLength)\<close> of moment: a minus sign for a negative number,
      then the digits, filled up with zeros to the target length.\<close>
  "zeroFill number targetLength =
     (let absNumber = digits_of \<bar>number\<bar>
      in (if number \<ge> 0 then [] else ''-'')
         @ replicate (targetLength - length absNumber) (CHR ''0'') @ absNumber)"

definition format_date :: "int \<Rightarrow> string" where
  \<comment> \<open>The text \<open>YYYY-MM-DD\<close> of a day number.\<close>
  "format_date z =
     (case civil z of (y, m, d) \<Rightarrow> zeroFill y 4 @ ''-'' @ zeroFill m 2 @ ''-'' @ zeroFill d 2)"

definition format_month :: "int \<Rightarrow> string" where
  \<comment> \<open>The text \<open>YYYY-MM\<close> of a day number.\<close>
  "format_month z = (case civil z of (y, m, d) \<Rightarrow> zeroFill y 4 @ ''-'' @ zeroFill m 2)"

definition date_text :: "host \<Rightarrow> int option \<Rightarrow> string" where
  \<comment> \<open>\<open>moment(d).format('YYYY-MM-DD')\<close>.\<close>
  "date_text h d = (case date_key h d of None \<Rightarrow> ''Invalid date'' | Some z \<Rightarrow> format_date z)"

definition month_text :: "host \<Rightarrow> int option \<Rightarrow> string" where
  \<comment> \<open>\<open>moment(d).format('YYYY-MM')\<close>.\<close>
  "month_text h d = (case date_key h d of None \<Rightarrow> ''Invalid date'' | Some z \<Rightarrow> format_month z)"

fun text_less :: "string \<Rightarrow> string \<Rightarrow> bool" where
  \<comment> \<open>The order of strings by their code units, which is \<open>a < b\<close> on strings.\<close>
  "text_less [] [] = False"
| "text_less [] (b # bs) = True"
| "text_less (a # as) [] = False"
| "text_less (a # as) (b # bs) =
     ((of_char a :: int) < of_char b \<or> (a = b \<and> text_less as bs))"

definition text_gt :: "string \<Rightarrow> string \<Rightarrow> bool" where
  \<comment> \<open>The comparison of the default \<open>sort()\<close> gives a positive number. The same order
      stands for \<open>a.localeCompare(b) > 0\<close> on the texts of dates, made of digits and
      hyphens, and \<open>Invalid date\<close>.\<close>
  "text_gt a b = text_less b a"

definition TimeClip :: "int \<Rightarrow> int option" where
  \<comment> \<open>A time value out of the range of a \<open>Date\<close> is \<open>NaN\<close>.\<close>
  "TimeClip t = (if \<bar>t\<bar> \<le> 8640000000000000 then Some t else None)"

definition utc_of_local :: "host \<Rightarrow> int \<Rightarrow> int option" where
  \<comment> \<open>The time value of a \<open>Date\<close> set from a local time.\<close>
  "utc_of_local h t = TimeClip (t - LocalTZA_local h t)"

definition iso_date_fields :: "string \<Rightarrow> (int \<times> int \<times> int) option" where
  \<comment> \<open>Year, month and day of a text \<open>YYYY-MM-DD\<close>, the year of four digits or of a
      sign and six digits: the two shapes of a date text that moment reads as ISO
      8601.\<close>
  "iso_date_fields s =
     (if length s = 10 \<and> list_all (\<lambda>i. is_digit (s ! i)) [0, 1, 2, 3, 5, 6, 8, 9]
         \<and> s ! 4 = CHR ''-'' \<and> s ! 7 = CHR ''-''
      then Some (digits_val (take 4 s), digits_val (take 2 (drop 5 s)),
                 digits_val (take 2 (drop 8 s)))
      else if length s = 13 \<and> (s ! 0 = CHR ''+'' \<or> s ! 0 = CHR ''-'')
         \<and> list_all (\<lambda>i. is_digit (s ! i)) [1, 2, 3, 4, 5, 6, 8, 9, 11, 12]
         \<and> s ! 7 = CHR ''-'' \<and> s ! 10 = CHR ''-''
      then Some ((if s ! 0 = CHR ''-'' then - 1 else 1) * digits_val (take 6 (drop 1 s)),
                 digits_val (take 2 (drop 8 s)), digits_val (take 2 (drop 11 s)))
      else None)"

definition setFullYear :: "host \<Rightarrow> int \<Rightarrow> int \<Rightarrow> int option" where
  \<comment> \<open>\<open>Date.prototype.setFullYear\<close> with one argument, on a valid date: the year of
      the local time is replaced.\<close>
  "setFullYear h t y =
     (let t' = local_ms h t
      in case civil (t' div msPerDay) of
           (y0, m0, d0) \<Rightarrow> utc_of_local h (days_from_civil y m0 d0 * msPerDay + t' mod msPerDay))"

definition createDate :: "host \<Rightarrow> int \<Rightarrow> int \<Rightarrow> int \<Rightarrow> int option" where
  \<comment> \<open>\<open>createDate(y, m, d, 0, 0, 0, 0)\<close> of moment: the local midnight of a day. For a
      year from 0 to 99, which the \<open>Date\<close> constructor would read as 1900 to 1999, the
      date is made 400 years later and its year set afterwards.\<close>
  "createDate h y m d =
     (if 0 \<le> y \<and> y < 100 then
        (case utc_of_local h (days_from_civil (y + 400) m d * msPerDay) of
           None \<Rightarrow> None
         | Some t \<Rightarrow> setFullYear h t y)
      else utc_of_local h (days_from_civil y m d * msPerDay))"

definition moment_text :: "host \<Rightarrow> string \<Rightarrow> int option" where
  \<comment> \<open>\<open>moment(s)\<close> for a text \<open>s\<close> that \<open>format('YYYY-MM-DD')\<close> printed: an ISO date
      of the calendar is the local midnight of its day, an ISO date that is not of the
      calendar is not valid, and any other text is left to \<open>new Date(s)\<close>.\<close>
  "moment_text h s =
     (case iso_date_fields s of
        Some (y, m, d) \<Rightarrow>
          if civil (days_from_civil y m d) = (y, m, d) then createDate h y m d else None
      | None \<Rightarrow> Date_parse h s)"

definition utcOffset :: "host \<Rightarrow> int \<Rightarrow> int" where
  \<comment> \<open>\<open>utcOffset()\<close> of a local moment, in minutes:
      \<open>-Math.round(date.getTimezoneOffset())\<close>.\<close>
  "utcOffset h t = - \<lfloor>(of_int (- LocalTZA h t) / 60000 :: rat) + 1 / 2\<rfloor>"

definition absFloor :: "int \<Rightarrow> int \<Rightarrow> int" where
  \<comment> \<open>\<open>absFloor(x / n)\<close>: the quotient rounded towards zero.\<close>
  "absFloor x n = (if x < 0 then - ((- x) div n) else x div n)"

definition diff_days :: "host \<Rightarrow> string \<Rightarrow> string \<Rightarrow> int option" where
  \<comment> \<open>\<open>moment(a).diff(moment(b), 'days')\<close> for two date texts: the time between the
      two moments, less the change of the offset, in whole days; \<open>NaN\<close> when one of
      the moments is not valid.\<close>
  "diff_days h a b =
     (case (moment_text h a, moment_text h b) of
        (Some this, Some that) \<Rightarrow>
          (let zoneDelta = (utcOffset h that - utcOffset h this) * 60000
           in Some (absFloor (this - that - zoneDelta) msPerDay))
      | _ \<Rightarrow> None)"

definition expectedDate :: "host \<Rightarrow> int \<Rightarrow> string" where
  \<comment> \<open>\<open>moment().subtract(currentStreak, 'days').format('YYYY-MM-DD')\<close>: the day of
      the month of the local time is set back, the time within the day is kept; for 0
      days nothing is set.\<close>
  "expectedDate h streak =
     (if streak = 0 then date_text h (Some (Date_now h))
      else
        let t = local_ms h (Date_now h);
            t' = (t div msPerDay - streak) * msPerDay + t mod msPerDay
        in date_text h (utc_of_local h t'))"

definition today :: "host \<Rightarrow> int" where
  "today h = local_day h (Date_now h)"

definition getFullYear :: "host \<Rightarrow> int" where
  \<comment> \<open>\<open>new Date().getFullYear()\<close>.\<close>
  "getFullYear h = fst (civil (today h))"

section \<open>Commits and the classifier\<close>

record GitCommit =
  hash :: string
  date :: "int option"
  message :: string
  author :: string
  email :: string
  files :: "string list"
  insertions :: int
  deletions :: int
  language :: "string option"

definition extname :: "string \<Rightarrow> string" where
  \<comment> \<open>\<open>path.extname\<close> of Node.js for POSIX paths: trailing slashes are dropped, the
      last component is taken, and the extension starts at its last dot, unless that
      dot is its first character or the component is \<open>..\<close>.\<close>
  "extname p =
     (let p1 = rev (dropWhile (\<lambda>c. c = CHR ''/'') (rev p));
          base = rev (takeWhile (\<lambda>c. c \<noteq> CHR ''/'') (rev p1));
          ext = rev (takeWhile (\<lambda>c. c \<noteq> CHR ''.'') (rev base))
      in if CHR ''.'' \<notin> set base then []
         else if length ext + 1 = length base then []
         else if base = ''..'' then []
         else CHR ''.'' # ext)"

definition languageMap :: "(string \<times> string) list" where
  "languageMap =
     [(''.js'', ''JavaScript''), (''.ts'', ''TypeScript''), (''.jsx'', ''JavaScript''),
      (''.tsx'', ''TypeScript''), (''.py'', ''Python''), (''.java'', ''Java''),
      (''.go'', ''Go''), (''.rs'', ''Rust''), (''.cpp'', ''C++''), (''.c'', ''C''),
      (''.cs'', ''C#''), (''.php'', ''PHP''), (''.rb'', ''Ruby''), (''.swift'', ''Swift''),
      (''.kt'', ''Kotlin''), (''.dart'', ''Dart''), (''.html'', ''HTML''), (''.css'', ''CSS''),
      (''.scss'', ''SCSS''), (''.sass'', ''Sass''), (''.less'', ''Less''), (''.vue'', ''Vue''),
      (''.json'', ''JSON''), (''.xml'', ''XML''), (''.yaml'', ''YAML''), (''.yml'', ''YAML''),
      (''.md'', ''Markdown''), (''.sql'', ''SQL''), (''.sh'', ''Shell''), (''.bat'', ''Batch'')]"

definition getLanguageFromExtension :: "string \<Rightarrow> string" where
  "getLanguageFromExtension ext =
     (case lookup languageMap ext of None \<Rightarrow> ''Other'' | Some l \<Rightarrow> l)"

fun dominant :: "(string \<times> int) list \<Rightarrow> int \<Rightarrow> string \<Rightarrow> string" where
  \<comment> \<open>The loop over \<open>extCount\<close>: a later extension wins only with a larger count.\<close>
  "dominant [] maxCount dominantExt = dominantExt"
| "dominant ((ext, count) # m) maxCount dominantExt =
     (if count > maxCount then dominant m count ext else dominant m maxCount dominantExt)"

definition detectLanguage :: "string list \<Rightarrow> string" where
  "detectLanguage fs =
     (if length fs = 0 then ''Unknown''
      else
        let extCount = foldl (\<lambda>m file. bump (toLowerCase (extname file)) m) [] fs
        in getLanguageFromExtension (dominant extCount 0 []))"

section \<open>The parser\<close>

datatype pstate = Meta | Stats

definition finalizeCommit :: "GitCommit list \<Rightarrow> GitCommit option \<Rightarrow> GitCommit list" where
  \<comment> \<open>The pending record is pushed when there is one and its hash is not the empty
      string.\<close>
  "finalizeCommit commits cur =
     (case cur of
        None \<Rightarrow> commits
      | Some c \<Rightarrow>
          if hash c \<noteq> [] then commits @ [c\<lparr>language := Some (detectLanguage (files c))\<rparr>]
          else commits)"

definition readMeta :: "host \<Rightarrow> string list \<Rightarrow> nat \<Rightarrow> GitCommit" where
  \<comment> \<open>The five header lines from \<open>lineIdx\<close> on.\<close>
  "readMeta h lines lineIdx =
     \<lparr>hash = lines ! lineIdx,
      date = Date_parse h (lines ! (lineIdx + 1)),
      message = lines ! (lineIdx + 2),
      author = lines ! (lineIdx + 3),
      email = lines ! (lineIdx + 4),
      files = [],
      insertions = 0,
      deletions = 0,
      language = None\<rparr>"

function skipBlank :: "string list \<Rightarrow> nat \<Rightarrow> nat" where
  "skipBlank lines lineIdx =
     (if lineIdx < length lines \<and> trim (lines ! lineIdx) = []
      then skipBlank lines (lineIdx + 1) else lineIdx)"
  by pat_completeness auto
termination
  by (relation "measure (\<lambda>(lines, lineIdx). length lines - lineIdx)") auto

declare skipBlank.simps [simp del]

definition numField :: "string \<Rightarrow> int" where
  \<comment> \<open>A numeric field of a stat line: the placeholder \<open>-\<close> is 0, and so is a field
      \<open>parseInt\<close> reads as \<open>NaN\<close>.\<close>
  "numField s =
     (if s = ''-'' then 0 else case parseInt s of None \<Rightarrow> 0 | Some n \<Rightarrow> n)"

definition numstat :: "string \<Rightarrow> GitCommit option \<Rightarrow> GitCommit option" where
  \<comment> \<open>A line that is not blank, in the Stats state.\<close>
  "numstat line cur =
     (let parts = split TAB line
      in if length parts = 3 then
           (case cur of
              None \<Rightarrow> None
            | Some c \<Rightarrow>
                Some (c\<lparr>insertions := insertions c + numField (parts ! 0),
                        deletions := deletions c + numField (parts ! 1),
                        files := files c @ [parts ! 2]\<rparr>))
         else cur)"

definition newRecord :: "pstate \<Rightarrow> string \<Rightarrow> bool" where
  \<comment> \<open>The test for the start of a new record.\<close>
  "newRecord st line \<longleftrightarrow> st = Stats \<and> length line = 40 \<and> TAB \<notin> set line"

lemma skipBlank_ge: "lineIdx \<le> skipBlank lines lineIdx"
proof (induction lines lineIdx rule: skipBlank.induct)
  case (1 lines lineIdx)
  show ?case
  proof (cases "lineIdx < length lines \<and> trim (lines ! lineIdx) = []")
    case True
    with "1.IH" have "lineIdx + 1 \<le> skipBlank lines (lineIdx + 1)" by simp
    with True show ?thesis by (subst skipBlank.simps) simp
  next
    case False
    then show ?thesis by (subst skipBlank.simps) auto
  qed
qed

function parse_loop ::
  "host \<Rightarrow> string list \<Rightarrow> nat \<Rightarrow> pstate \<Rightarrow> GitCommit option \<Rightarrow> GitCommit list \<Rightarrow> GitCommit list"
where
  "parse_loop h lines lineIdx st cur commits =
     (if lineIdx < length lines then
        (let line = lines ! lineIdx;
             fresh = newRecord st line;
             commits' = (if fresh then finalizeCommit commits cur else commits);
             st' = (if fresh then Meta else st);
             cur' = (if fresh then None else cur)
         in if st' = Meta then
              (if lineIdx + 4 \<ge> length lines then finalizeCommit commits' cur'
               else parse_loop h lines (skipBlank lines (lineIdx + 5)) Stats
                      (Some (readMeta h lines lineIdx)) commits')
            else if trim line = [] then parse_loop h lines (lineIdx + 1) st' cur' commits'
            else parse_loop h lines (lineIdx + 1) st' (numstat line cur') commits')
      else finalizeCommit commits cur)"
  by pat_completeness auto
termination
proof (relation "measure (\<lambda>(h, lines, lineIdx, st, cur, commits). length lines - lineIdx)")
  fix h :: host and lines :: "string list" and lineIdx :: nat
  assume "\<not> length lines \<le> lineIdx + 4"
  moreover have "lineIdx + 5 \<le> skipBlank lines (lineIdx + 5)" by (rule skipBlank_ge)
  ultimately show
    "((h, lines, skipBlank lines (lineIdx + 5), Stats, Some (readMeta h lines lineIdx),
       (x :: GitCommit list)), (h, lines, lineIdx, (st :: pstate), (cur :: GitCommit option),
       (commits :: GitCommit list)))
     \<in> measure (\<lambda>(h, lines, lineIdx, st, cur, commits). length lines - lineIdx)" for x st cur commits
    by simp
qed auto

declare parse_loop.simps [simp del]

definition parseRawLog :: "host \<Rightarrow> string \<Rightarrow> GitCommit list" where
  "parseRawLog h rawLog = parse_loop h (split LF rawLog) 0 Meta None []"



section \<open>The aggregator\<close>

datatype error =
  NoResults   \<comment> \<open>the \<open>Error\<close> the merger throws\<close>
| TypeError   \<comment> \<open>a property read on \<open>undefined\<close>\<close>
| NonFinite   \<comment> \<open>a number would be \<open>NaN\<close> or infinite, which \<open>int\<close> and \<open>rat\<close> are not\<close>

record LanguageStat =
  count :: int
  percentage :: rat

record TimeStats =
  byHour :: "(int option \<times> int) list"
  byDayOfWeek :: "(int option \<times> int) list"
  byMonth :: "(string \<times> int) list"

record StreakStats =
  longestStreak :: int
  currentStreak :: int
  totalActiveDays :: int

record ProjectStat =
  p_path :: string
  p_name :: string
  p_commits :: int
  p_lines :: int

record CommitTrends =
  monthly :: "(string \<times> int) list"
  daily :: "(string \<times> int) list"

text \<open>
  Of an achievement the model keeps the identifier and the flag; its name, description,
  icon and progress are display texts. A title or a description of a persona is one
  constructor for each string literal or template of the source, with the values the
  template interpolates as arguments.
\<close>

record Achievement =
  a_id :: string
  unlocked :: bool

datatype title =
  EmptyTitle | Apprentice | CodeCreator | FullStackArtist | PersistentMaster | SeniorDeveloper
| Engineer string | MinimalistTitle | MarathonRunner | NightWatch
| ProjectExplorer | VersatileDeveloper | ProjectJumper

datatype description =
  EmptyText | Exploring | Analysing | LessIsMore | MarathonText | NightStar
| YearSummary int int int   \<comment> \<open>year, total commits, net lines\<close>
| ExplorerText int int      \<comment> \<open>year, total projects\<close>
| VersatileText int int
| NomadText int int

record Persona =
  title :: title
  description :: description

record GitAnalysisResult =
  totalCommits :: int
  totalInsertions :: int
  totalDeletions :: int
  netLines :: int
  languageStats :: "(string \<times> LanguageStat) list"
  timeStats :: TimeStats
  streakStats :: StreakStats
  projectStats :: "ProjectStat list"
  commitTrends :: CommitTrends
  punchCard :: "int list list"
  topKeywords :: "(string \<times> int) list"
  achievements :: "Achievement list"
  persona :: Persona

fun collect :: "(error + 'a) list \<Rightarrow> error + 'a list" where
  \<comment> \<open>The results of a loop, up to the first error.\<close>
  "collect [] = Inr []"
| "collect (x # xs) =
     (case x of
        Inl e \<Rightarrow> Inl e
      | Inr v \<Rightarrow> (case collect xs of Inl e \<Rightarrow> Inl e | Inr vs \<Rightarrow> Inr (v # vs)))"

definition divide_num :: "int \<Rightarrow> int \<Rightarrow> error + rat" where
  \<comment> \<open>\<open>a / b\<close> on numbers; a zero divisor gives \<open>NaN\<close> or an infinity.\<close>
  "divide_num a b = (if b = 0 then Inl NonFinite else Inr (of_int a / of_int b))"

definition Math_round :: "rat \<Rightarrow> rat" where
  "Math_round x = of_int \<lfloor>x + 1 / 2\<rfloor>"

definition analyzeLanguages :: "GitCommit list \<Rightarrow> error + (string \<times> LanguageStat) list" where
  "analyzeLanguages commits =
     (let langs = concat (map (\<lambda>c. map (\<lambda>file. getLanguageFromExtension
                     (toLowerCase (extname file))) (files c)) commits);
          languageCount = foldl (\<lambda>m l. if l \<noteq> [] then bump l m else m) [] langs;
          totalFiles = int (length (filter (\<lambda>l. l \<noteq> []) langs))
      in collect (map (\<lambda>(l, n).
           case divide_num n totalFiles of
             Inl e \<Rightarrow> Inl e
           | Inr q \<Rightarrow> Inr (l, \<lparr>count = n, percentage = Math_round (q * 100)\<rparr>)) languageCount))"

definition analyzeTimePatterns :: "host \<Rightarrow> GitCommit list \<Rightarrow> TimeStats" where
  "analyzeTimePatterns h commits =
     \<lparr>byHour = foldl (\<lambda>m c. bump (hour_of h (date c)) m) [] commits,
      byDayOfWeek = foldl (\<lambda>m c. bump (day_of h (date c)) m) [] commits,
      byMonth = foldl (\<lambda>m c. bump (month_text h (date c)) m) [] commits\<rparr>"

definition sortByTime :: "GitCommit list \<Rightarrow> GitCommit list" where
  \<comment> \<open>\<open>commits.sort((a, b) => a.date.getTime() - b.date.getTime())\<close>, in place. A
      difference that is \<open>NaN\<close> counts as 0; with an Invalid Date among the commits
      ECMAScript leaves the order to the implementation, and this is one such order.\<close>
  "sortByTime commits =
     sort_by (\<lambda>a b. case (date a, date b) of (Some x, Some y) \<Rightarrow> x - y > 0 | _ \<Rightarrow> False) commits"

definition set_add :: "'a \<Rightarrow> 'a list \<Rightarrow> 'a list" where
  \<comment> \<open>\<open>Set.add\<close>: a new element goes last.\<close>
  "set_add x s = (if x \<in> set s then s else s @ [x])"

fun longest_loop :: "host \<Rightarrow> string \<Rightarrow> string list \<Rightarrow> int \<Rightarrow> int \<Rightarrow> int \<times> int" where
  \<comment> \<open>The first loop over \<open>dates\<close>, from index 1: the previous date, the dates left,
      \<open>longestStreak\<close> and \<open>tempStreak\<close>.\<close>
  "longest_loop h prev [] longest temp = (longest, temp)"
| "longest_loop h prev (d # ds) longest temp =
     (if diff_days h d prev = Some 1 then longest_loop h d ds longest (temp + 1)
      else longest_loop h d ds (max longest temp) 1)"

fun current_loop :: "host \<Rightarrow> string list \<Rightarrow> int \<Rightarrow> int" where
  \<comment> \<open>The second loop, over \<open>dates\<close> from the last index down.\<close>
  "current_loop h [] streak = streak"
| "current_loop h (d # ds) streak =
     (if d = expectedDate h streak then current_loop h ds (streak + 1) else streak)"

definition analyzeStreaks :: "host \<Rightarrow> GitCommit list \<Rightarrow> StreakStats" where
  "analyzeStreaks h commits =
     (if length commits = 0 then \<lparr>longestStreak = 0, currentStreak = 0, totalActiveDays = 0\<rparr>
      else
        let sortedCommits = sortByTime commits;
            activeDates = foldl (\<lambda>s c. set_add (date_text h (date c)) s) [] sortedCommits;
            dates = sort_by text_gt activeDates;
            (longest, temp) = (case dates of [] \<Rightarrow> (1, 1) | d # ds \<Rightarrow> longest_loop h d ds 1 1)
        in \<lparr>longestStreak = max longest temp,
            currentStreak = current_loop h (rev dates) 0,
            totalActiveDays = int (length dates)\<rparr>)"

definition basename :: "string \<Rightarrow> string" where
  \<comment> \<open>\<open>path.basename\<close> for POSIX paths.\<close>
  "basename p =
     rev (takeWhile (\<lambda>c. c \<noteq> CHR ''/'') (dropWhile (\<lambda>c. c = CHR ''/'') (rev p)))"

definition analyzeProjects :: "string \<Rightarrow> GitCommit list \<Rightarrow> ProjectStat list" where
  "analyzeProjects repoPath commits =
     [\<lparr>p_path = repoPath, p_name = basename repoPath, p_commits = int (length commits),
       p_lines = foldl (\<lambda>sum c. sum + insertions c + deletions c) 0 commits\<rparr>]"

definition sortMap :: "(string \<times> int) list \<Rightarrow> (string \<times> int) list" where
  "sortMap m = sort_by (\<lambda>a b. text_gt (fst a) (fst b)) m"

definition analyzeTrends :: "host \<Rightarrow> GitCommit list \<Rightarrow> CommitTrends" where
  "analyzeTrends h commits =
     \<lparr>monthly = sortMap (foldl (\<lambda>m c. bump (month_text h (date c)) m) [] commits),
      daily = sortMap (foldl (\<lambda>m c. bump (date_text h (date c)) m) [] commits)\<rparr>"

definition punch :: "host \<Rightarrow> int list list \<Rightarrow> GitCommit \<Rightarrow> error + int list list" where
  \<comment> \<open>\<open>card[day][hour]++\<close>. For an Invalid Date both indices are \<open>NaN\<close>, \<open>card[NaN]\<close> is
      \<open>undefined\<close> and the read of its property throws.\<close>
  "punch h grid c =
     (case (day_of h (date c), hour_of h (date c)) of
        (Some day, Some hour) \<Rightarrow>
          if \<not> (0 \<le> day \<and> day < int (length grid)) then Inl TypeError
          else if \<not> (0 \<le> hour \<and> hour < int (length (grid ! nat day))) then Inl NonFinite
          else Inr (grid[nat day := (grid ! nat day)[nat hour := grid ! nat day ! nat hour + 1]])
      | _ \<Rightarrow> Inl TypeError)"

fun punch_loop :: "host \<Rightarrow> int list list \<Rightarrow> GitCommit list \<Rightarrow> error + int list list" where
  "punch_loop h grid [] = Inr grid"
| "punch_loop h grid (c # cs) =
     (case punch h grid c of Inl e \<Rightarrow> Inl e | Inr grid' \<Rightarrow> punch_loop h grid' cs)"

definition analyzePunchCard :: "host \<Rightarrow> GitCommit list \<Rightarrow> error + int list list" where
  "analyzePunchCard h commits = punch_loop h (replicate 7 (replicate 24 0)) commits"

definition is_word_char :: "char \<Rightarrow> bool" where
  \<comment> \<open>The class \<open>\w\<close>.\<close>
  "is_word_char c =
     (let n = (of_char c :: nat)
      in (48 \<le> n \<and> n \<le> 57) \<or> (65 \<le> n \<and> n \<le> 90) \<or> n = 95 \<or> (97 \<le> n \<and> n \<le> 122))"

fun split_ws :: "bool \<Rightarrow> string \<Rightarrow> string \<Rightarrow> string list" where
  \<comment> \<open>\<open>s.split(/\s+/)\<close>: the flag says that the separator before the field being read
      has begun; the last argument is the field read so far.\<close>
  "split_ws sep [] cur = [cur]"
| "split_ws sep (c # cs) cur =
     (if is_space c then (if sep then split_ws True cs cur else cur # split_ws True cs [])
      else split_ws False cs (cur @ [c]))"

definition stopWords :: "string list" where
  "stopWords =
     [''the'', ''a'', ''an'', ''to'', ''in'', ''for'', ''of'', ''and'', ''or'', ''with'', ''by'',
      ''from'', ''update'', ''add'', ''remove'', ''fix'', ''merge'', ''delete'', ''create'']"

definition words_of :: "string \<Rightarrow> string list" where
  \<comment> \<open>\<open>message.toLowerCase().replace(/[^\w\s]/g, '').split(/\s+/)\<close>.\<close>
  "words_of msg =
     split_ws False (filter (\<lambda>c. is_word_char c \<or> is_space c) (toLowerCase msg)) []"

definition analyzeKeywords :: "GitCommit list \<Rightarrow> (string \<times> int) list" where
  "analyzeKeywords commits =
     (let wordCount =
            foldl (\<lambda>m w. if length w > 2 \<and> w \<notin> set stopWords then bump w m else m) []
              (concat (map (\<lambda>c. words_of (message c)) commits))
      in take 20 (sort_by (\<lambda>a b. snd b - snd a > 0) wordCount))"

definition ascii_lower :: "char \<Rightarrow> char" where
  "ascii_lower c =
     (let n = (of_char c :: nat) in if 65 \<le> n \<and> n \<le> 90 then char_of (n + 32) else c)"

fun matches_at :: "string \<Rightarrow> string \<Rightarrow> bool" where
  "matches_at [] s = True"
| "matches_at (p # ps) [] = False"
| "matches_at (p # ps) (c # cs) = (ascii_lower c = p \<and> matches_at ps cs)"

fun test_ci :: "string \<Rightarrow> string \<Rightarrow> bool" where
  \<comment> \<open>\<open>/pat/i.test(s)\<close> for a pattern of small ASCII letters.\<close>
  "test_ci pat [] = matches_at pat []"
| "test_ci pat (c # cs) = (matches_at pat (c # cs) \<or> test_ci pat cs)"

definition endsWith :: "string \<Rightarrow> string \<Rightarrow> bool" where
  "endsWith s suf \<longleftrightarrow> length suf \<le> length s \<and> drop (length s - length suf) s = suf"

definition hour_is :: "host \<Rightarrow> (int \<Rightarrow> bool) \<Rightarrow> GitCommit \<Rightarrow> bool" where
  \<comment> \<open>A test on \<open>moment(c.date).hour()\<close>; a comparison with \<open>NaN\<close> is false.\<close>
  "hour_is h P c = (case hour_of h (date c) of None \<Rightarrow> False | Some hour \<Rightarrow> P hour)"

definition calculateAchievements ::
  "host \<Rightarrow> GitAnalysisResult \<Rightarrow> GitCommit list \<Rightarrow> error + Achievement list"
where
  \<comment> \<open>The patterns for bug fixes and refactorings have one more alternative each, of
      two code units above 255, which no string of the model contains.\<close>
  "calculateAchievements h stats commits =
     (let bugFixCommits = int (length (filter (\<lambda>c. test_ci ''fix'' (message c)
                                 \<or> test_ci ''bug'' (message c)) commits));
          refactorCommits = int (length (filter (\<lambda>c. test_ci ''refactor'' (message c)) commits));
          docCommits = int (length (filter (\<lambda>c. list_ex (\<lambda>f. endsWith f ''.md'') (files c))
                              commits));
          nightCommits = int (length (filter (hour_is h (\<lambda>hour. hour \<ge> 0 \<and> hour < 5)) commits));
          midnightCommits = int (length (filter (hour_is h (\<lambda>hour. hour \<ge> 0 \<and> hour \<le> 1)) commits));
          weekendCommits = int (length (filter (\<lambda>c. day_of h (date c) = Some 0
                                  \<or> day_of h (date c) = Some 6) commits));
          dailyCommits = foldl (\<lambda>m c. bump (date_text h (date c)) m) [] commits;
          earlyBird = int (length (filter (hour_is h (\<lambda>h. h \<ge> 5 \<and> h \<le> 8)) commits));
          maxDailyCommits = foldl max 0 (map snd dailyCommits)
      in case (if totalCommits stats > 0
               then divide_num (totalInsertions stats + totalDeletions stats) (totalCommits stats)
               else Inr 0) of
           Inl e \<Rightarrow> Inl e
         | Inr avgLinesPerCommit \<Rightarrow>
        (case divide_num (totalDeletions stats)
                (if totalInsertions stats = 0 then 1 else totalInsertions stats) of
           Inl e \<Rightarrow> Inl e
         | Inr refactorRatio \<Rightarrow>
             Inr (filter unlocked
               [\<lparr>a_id = ''first-commit'', unlocked = totalCommits stats > 0\<rparr>,
                \<lparr>a_id = ''100-commits'', unlocked = totalCommits stats \<ge> 100\<rparr>,
                \<lparr>a_id = ''500-commits'', unlocked = totalCommits stats \<ge> 500\<rparr>,
                \<lparr>a_id = ''1000-commits'', unlocked = totalCommits stats \<ge> 1000\<rparr>,
                \<lparr>a_id = ''night-owl'', unlocked = nightCommits \<ge> 20\<rparr>,
                \<lparr>a_id = ''weekend-warrior'', unlocked = weekendCommits \<ge> 50\<rparr>,
                \<lparr>a_id = ''consistency-king'', unlocked = longestStreak (streakStats stats) \<ge> 7\<rparr>,
                \<lparr>a_id = ''polyglot'', unlocked = int (length (languageStats stats)) \<ge> 5\<rparr>,
                \<lparr>a_id = ''early-bird'', unlocked = earlyBird \<ge> 10\<rparr>,
                \<lparr>a_id = ''midnight-coder'', unlocked = midnightCommits \<ge> 10\<rparr>,
                \<lparr>a_id = ''code-rocket'', unlocked = maxDailyCommits \<ge> 10\<rparr>,
                \<lparr>a_id = ''bug-terminator'', unlocked = bugFixCommits \<ge> 30\<rparr>,
                \<lparr>a_id = ''refactor-artist'', unlocked = refactorCommits \<ge> 15\<rparr>,
                \<lparr>a_id = ''doc-master'', unlocked = docCommits \<ge> 20\<rparr>,
                \<lparr>a_id = ''quality-guardian'',
                  unlocked = avgLinesPerCommit > 0 \<and> avgLinesPerCommit < 50\<rparr>,
                \<lparr>a_id = ''code-giant'', unlocked = netLines stats \<ge> 10000\<rparr>,
                \<lparr>a_id = ''minimalist'', unlocked = refactorRatio \<ge> 1 / 2\<rparr>,
                \<lparr>a_id = ''active-developer'',
                  unlocked = totalActiveDays (streakStats stats) \<ge> 100\<rparr>])))"

definition calculatePersona :: "host \<Rightarrow> GitAnalysisResult \<Rightarrow> Persona" where
  \<comment> \<open>In \<open>byHour.get(23) || 0 > 50\<close> the comparison binds first and is false, so the
      condition is that the count of hour 23 is there and is not 0.\<close>
  "calculatePersona h stats =
     (let languages = map fst (languageStats stats);
          topLang = (case languages of [] \<Rightarrow> ''Code'' | l # _ \<Rightarrow> if l = [] then ''Code'' else l);
          title0 =
            (if totalCommits stats > 1000 then
               (if netLines stats > 50000 then CodeCreator else FullStackArtist)
             else if totalCommits stats > 500 then
               (if longestStreak (streakStats stats) > 30 then PersistentMaster
                else SeniorDeveloper)
             else if totalCommits stats > 100 then Engineer topLang
             else Apprentice)
      in if totalDeletions stats > totalInsertions stats then
           \<lparr>title = MinimalistTitle, description = LessIsMore\<rparr>
         else if longestStreak (streakStats stats) > 60 then
           \<lparr>title = MarathonRunner, description = MarathonText\<rparr>
         else if (case lookup (byHour (timeStats stats)) (Some 23) of
                    None \<Rightarrow> False | Some v \<Rightarrow> v \<noteq> 0) then
           \<lparr>title = NightWatch, description = NightStar\<rparr>
         else
           \<lparr>title = title0,
            description = YearSummary (getFullYear h) (totalCommits stats) (netLines stats)\<rparr>)"

definition analyze :: "host \<Rightarrow> string \<Rightarrow> GitCommit list \<Rightarrow> error + GitAnalysisResult" where
  \<comment> \<open>\<open>analyze\<close> from the commits \<open>getCommits\<close> returned. \<open>analyzeStreaks\<close> sorts the
      array in place, so what follows it reads the sorted commits.\<close>
  "analyze h repositoryPath commits0 =
     (let timeStats' = analyzeTimePatterns h commits0;
          streakStats' = analyzeStreaks h commits0;
          commits = (if length commits0 = 0 then commits0 else sortByTime commits0);
          projectStats' = analyzeProjects repositoryPath commits;
          totalInsertions' = foldl (\<lambda>sum c. sum + insertions c) 0 commits;
          totalDeletions' = foldl (\<lambda>sum c. sum + deletions c) 0 commits
      in case analyzeLanguages commits of
           Inl e \<Rightarrow> Inl e
         | Inr languageStats' \<Rightarrow>
        (case analyzePunchCard h commits of
           Inl e \<Rightarrow> Inl e
         | Inr punchCard' \<Rightarrow>
             (let result =
                    \<lparr>totalCommits = int (length commits),
                     totalInsertions = totalInsertions',
                     totalDeletions = totalDeletions',
                     netLines = totalInsertions' - totalDeletions',
                     languageStats = languageStats',
                     timeStats = timeStats',
                     streakStats = streakStats',
                     projectStats = projectStats',
                     commitTrends = analyzeTrends h commits,
                     punchCard = punchCard',
                     topKeywords = analyzeKeywords commits,
                     achievements = [],
                     persona = \<lparr>title = EmptyTitle, description = EmptyText\<rparr>\<rparr>
              in case calculateAchievements h result commits of
                   Inl e \<Rightarrow> Inl e
                 | Inr achievements' \<Rightarrow>
                     (let result1 = result\<lparr>achievements := achievements'\<rparr>
                      in Inr (result1\<lparr>persona := calculatePersona h result1\<rparr>)))))"

section \<open>The merger\<close>

record ProjectDetail =
  d_path :: string
  d_name :: string
  d_commits :: int
  d_lines :: int
  active :: bool

fun add_language ::
  "string \<Rightarrow> int \<Rightarrow> (string \<times> LanguageStat) list \<Rightarrow> (string \<times> LanguageStat) list"
where
  \<comment> \<open>A language the merged map has gets the count added; a new one is set with
      the percentage 0.\<close>
  "add_language lang n [] = [(lang, \<lparr>count = n, percentage = 0\<rparr>)]"
| "add_language lang n ((lang', existing) # m) =
     (if lang = lang' then (lang', existing\<lparr>count := count existing + n\<rparr>) # m
      else (lang', existing) # add_language lang n m)"

definition add_cards :: "int list list \<Rightarrow> int list list \<Rightarrow> error + int list list" where
  \<comment> \<open>\<open>merged.punchCard[i][j] += result.punchCard[i][j]\<close> for \<open>i < 7\<close> and \<open>j < 24\<close>:
      a row that is not there is \<open>undefined\<close> and reading its element throws; an
      element that is not there makes the sum \<open>NaN\<close>.\<close>
  "add_cards merged other =
     (if list_ex (\<lambda>i. length other \<le> i) [0..<7] then Inl TypeError
      else if list_ex (\<lambda>i. list_ex (\<lambda>j. length (other ! i) \<le> j) [0..<24]) [0..<7]
      then Inl NonFinite
      else Inr (map (\<lambda>i. map (\<lambda>j. merged ! i ! j + other ! i ! j) [0..<24]) [0..<7]))"

definition merge_one ::
  "GitAnalysisResult \<times> ProjectDetail list \<Rightarrow> GitAnalysisResult \<times> string \<times> string
     \<Rightarrow> error + GitAnalysisResult \<times> ProjectDetail list"
where
  \<comment> \<open>The body of the loop over \<open>results\<close>.\<close>
  "merge_one acc entry =
     (case (acc, entry) of ((merged, projectDetails), (result, projectPath, projectName)) \<Rightarrow>
        case add_cards (punchCard merged) (punchCard result) of
          Inl e \<Rightarrow> Inl e
        | Inr punchCard' \<Rightarrow>
            Inr (merged
                  \<lparr>totalCommits := totalCommits merged + totalCommits result,
                   totalInsertions := totalInsertions merged + totalInsertions result,
                   totalDeletions := totalDeletions merged + totalDeletions result,
                   netLines := netLines merged + netLines result,
                   languageStats :=
                     foldl (\<lambda>m (lang, stats). add_language lang (count stats) m)
                       (languageStats merged) (languageStats result),
                   timeStats :=
                     \<lparr>byHour = foldl (\<lambda>m (hour, n). add_to hour n m)
                                 (byHour (timeStats merged)) (byHour (timeStats result)),
                      byDayOfWeek = foldl (\<lambda>m (day, n). add_to day n m)
                                 (byDayOfWeek (timeStats merged)) (byDayOfWeek (timeStats result)),
                      byMonth = foldl (\<lambda>m (month, n). add_to month n m)
                                 (byMonth (timeStats merged)) (byMonth (timeStats result))\<rparr>,
                   streakStats :=
                     \<lparr>longestStreak = max (longestStreak (streakStats merged))
                                          (longestStreak (streakStats result)),
                      currentStreak = max (currentStreak (streakStats merged))
                                          (currentStreak (streakStats result)),
                      totalActiveDays = totalActiveDays (streakStats merged)
                                          + totalActiveDays (streakStats result)\<rparr>,
                   projectStats := projectStats merged @ projectStats result,
                   commitTrends :=
                     \<lparr>monthly = monthly (commitTrends merged) @ monthly (commitTrends result),
                      daily = daily (commitTrends merged) @ daily (commitTrends result)\<rparr>,
                   punchCard := punchCard'\<rparr>,
                 projectDetails @
                   [\<lparr>d_path = projectPath, d_name = projectName,
                     d_commits = totalCommits result, d_lines = netLines result,
                     active = totalCommits result > 0\<rparr>]))"

fun merge_loop ::
  "GitAnalysisResult \<times> ProjectDetail list \<Rightarrow> (GitAnalysisResult \<times> string \<times> string) list
     \<Rightarrow> error + GitAnalysisResult \<times> ProjectDetail list"
where
  "merge_loop acc [] = Inr acc"
| "merge_loop acc (entry # results) =
     (case merge_one acc entry of Inl e \<Rightarrow> Inl e | Inr acc' \<Rightarrow> merge_loop acc' results)"

definition emptyMerged :: GitAnalysisResult where
  \<comment> \<open>The value \<open>merged\<close> starts from.\<close>
  "emptyMerged =
     \<lparr>totalCommits = 0, totalInsertions = 0, totalDeletions = 0, netLines = 0,
      languageStats = [],
      timeStats = \<lparr>byHour = [], byDayOfWeek = [], byMonth = []\<rparr>,
      streakStats = \<lparr>longestStreak = 0, currentStreak = 0, totalActiveDays = 0\<rparr>,
      projectStats = [],
      commitTrends = \<lparr>monthly = [], daily = []\<rparr>,
      punchCard = replicate 7 (replicate 24 0),
      topKeywords = [],
      achievements = [],
      persona = \<lparr>title = Apprentice, description = Analysing\<rparr>\<rparr>"

definition milestone :: "string \<Rightarrow> Achievement" where
  "milestone i = \<lparr>a_id = i, unlocked = True\<rparr>"

definition addProjectMilestones ::
  "host \<Rightarrow> GitAnalysisResult \<Rightarrow> ProjectDetail list \<Rightarrow> GitAnalysisResult"
where
  "addProjectMilestones h merged projectDetails =
     (let totalProjects = int (length projectDetails);
          activeProjects = filter active projectDetails;
          activeCount = int (length activeProjects);
          byTotal =
            (if totalProjects \<ge> 50 then [milestone ''project-collector-50'']
             else if totalProjects \<ge> 20 then [milestone ''project-explorer-20'']
             else if totalProjects \<ge> 10 then [milestone ''project-jumper-10'']
             else if totalProjects \<ge> 5 then [milestone ''project-nomad-5'']
             else []);
          byActive =
            (if activeCount \<ge> 10 then [milestone ''active-projects-10'']
             else if activeCount \<ge> 5 then [milestone ''active-projects-5'']
             else []);
          focused =
            (if totalProjects \<ge> 10 \<and> activeCount \<le> 3 then [milestone ''focused-developer'']
             else []);
          uniqueLanguages =
            foldl (\<lambda>s project. if d_commits project > 0 then set_add ''JavaScript'' s else s) []
              activeProjects;
          diversity =
            (if int (length uniqueLanguages) \<ge> 5 then [milestone ''language-diversity-5'']
             else []);
          loyal =
            (if totalProjects = 1 \<and> activeCount = 1 then [milestone ''loyal-developer'']
             else []);
          year = getFullYear h
      in merged
           \<lparr>achievements := achievements merged @ byTotal @ byActive @ focused @ diversity @ loyal,
            persona :=
              (if totalProjects \<ge> 20 then
                 \<lparr>title = ProjectExplorer, description = ExplorerText year totalProjects\<rparr>
               else if totalProjects \<ge> 10 then
                 \<lparr>title = VersatileDeveloper, description = VersatileText year totalProjects\<rparr>
               else if totalProjects \<ge> 5 then
                 \<lparr>title = ProjectJumper, description = NomadText year totalProjects\<rparr>
               else persona merged)\<rparr>)"

definition recomputePercentages ::
  "(string \<times> LanguageStat) list \<Rightarrow> error + (string \<times> LanguageStat) list"
where
  \<comment> \<open>The loop that sets the percentage of every merged language.\<close>
  "recomputePercentages merged_languageStats =
     (let totalLanguageCount =
            foldl (\<lambda>sum (lang, stats). sum + count stats) 0 merged_languageStats
      in collect (map (\<lambda>(lang, stats).
           case (if totalLanguageCount > 0
                 then map_sum id (\<lambda>q. q * 100) (divide_num (count stats) totalLanguageCount)
                 else Inr 0) of
             Inl e \<Rightarrow> Inl e
           | Inr p \<Rightarrow> Inr (lang, stats\<lparr>percentage := p\<rparr>)) merged_languageStats))"

definition mergeAnalysisResults ::
  "host \<Rightarrow> (GitAnalysisResult \<times> string \<times> string) list
     \<Rightarrow> error + GitAnalysisResult \<times> ProjectDetail list"
where
  "mergeAnalysisResults h results =
     (if length results = 0 then Inl NoResults
      else
        case merge_loop (emptyMerged, []) results of
          Inl e \<Rightarrow> Inl e
        | Inr (merged, projectDetails) \<Rightarrow>
        (case recomputePercentages (languageStats merged) of
           Inl e \<Rightarrow> Inl e
         | Inr languageStats' \<Rightarrow>
           (let merged1 = merged
                  \<lparr>languageStats :=
                     sort_by (\<lambda>a b. count (snd b) - count (snd a) > 0) languageStats',
                   commitTrends :=
                     (commitTrends merged)
                       \<lparr>monthly :=
                          sort_by (\<lambda>a b. text_gt (fst a) (fst b))
                            (foldl (\<lambda>m (d, n). add_to d n m) []
                               (monthly (commitTrends merged)))\<rparr>,
                   topKeywords :=
                     (case results of [] \<Rightarrow> [] | (result, _) # _ \<Rightarrow> topKeywords result)\<rparr>
            in case calculateAchievements h merged1 [] of
                 Inl e \<Rightarrow> Inl e
               | Inr achievements' \<Rightarrow>
                   (let merged2 = merged1\<lparr>achievements := achievements'\<rparr>;
                        merged3 = merged2\<lparr>persona := calculatePersona h merged2\<rparr>;
                        sortedDetails = sort_by (\<lambda>a b. d_commits b - d_commits a > 0)
                                          projectDetails
                    in Inr (addProjectMilestones h merged3 sortedDetails, sortedDetails)))))"

section \<open>An example host\<close>

definition iso_time :: "string \<Rightarrow> int option" where
  \<comment> \<open>The time value of a timestamp as \<open>git log\<close> prints it for \<open>%aI\<close>,
      \<open>YYYY-MM-DDTHH:MM:SS+HH:MM\<close>; every other string is an Invalid Date here.\<close>
  "iso_time s =
     (let num = (\<lambda>i n. digits_val (take n (drop i s)));
          y = num 0 4; m = num 5 2; d = num 8 2;
          hh = num 11 2; mm = num 14 2; ss = num 17 2;
          oh = num 20 2; om = num 23 2
      in if length s = 25
            \<and> list_all (\<lambda>i. is_digit (s ! i))
                 [0, 1, 2, 3, 5, 6, 8, 9, 11, 12, 14, 15, 17, 18, 20, 21, 23, 24]
            \<and> s ! 4 = CHR ''-'' \<and> s ! 7 = CHR ''-'' \<and> s ! 10 = CHR ''T''
            \<and> s ! 13 = CHR '':'' \<and> s ! 16 = CHR '':'' \<and> s ! 22 = CHR '':''
            \<and> (s ! 19 = CHR ''+'' \<or> s ! 19 = CHR ''-'')
            \<and> civil (days_from_civil y m d) = (y, m, d)
            \<and> hh < 24 \<and> mm < 60 \<and> ss < 60 \<and> oh < 24 \<and> om < 60
         then Some (((days_from_civil y m d * 24 + hh) * 60 + mm) * 60000 + ss * 1000
                    - (if s ! 19 = CHR ''-'' then - 1 else 1) * (oh * 60 + om) * 60000)
         else None)"

definition utc_host :: host where
  \<comment> \<open>A host in the time zone UTC whose clock shows 2024-01-03T10:00:00Z.\<close>
  "utc_host =
     \<lparr>Date_parse = iso_time, LocalTZA = (\<lambda>t. 0), LocalTZA_local = (\<lambda>t. 0),
      Date_now = 1704276000000\<rparr>"

definition santiago_host :: host where
  \<comment> \<open>A host in the time zone of Santiago de Chile around 2024-09-08, the day the
      clocks went from 00:00 to 01:00: local time is 4 hours behind UTC before
      2024-09-08T04:00:00Z and 3 hours after; a local time before 01:00 of that day is
      read with the offset of 4 hours. The clock shows 2024-09-09T18:00:00Z.\<close>
  "santiago_host =
     \<lparr>Date_parse = iso_time,
      LocalTZA = (\<lambda>t. if t < 1725768000000 then - 14400000 else - 10800000),
      LocalTZA_local = (\<lambda>t. if t < 1725757200000 then - 14400000 else - 10800000),
      Date_now = 1725904800000\<rparr>"

definition dst_commits :: "GitCommit list" where
  \<comment> \<open>One commit at noon, local time of Santiago, on each of 2024-09-07, 2024-09-08
      and 2024-09-09.\<close>
  "dst_commits =
     map (\<lambda>t. \<lparr>hash = ''0123456789abcdef0123456789abcdef01234567'', date = Some t,
                message = ''work'', author = ''Ann'', email = ''ann@example.org'',
                files = [], insertions = 0, deletions = 0, language = Some ''Unknown''\<rparr>)
       [1725724800000, 1725807600000, 1725894000000]"

section \<open>Example inputs\<close>

fun join_lines :: "string list \<Rightarrow> string" where
  \<comment> \<open>\<open>lines.join('\n')\<close>: the text whose lines are the given ones.\<close>
  "join_lines [] = []"
| "join_lines [l] = l"
| "join_lines (l # ls) = l @ LF # join_lines ls"

definition hashA :: string where
  "hashA = ''0123456789abcdef0123456789abcdef01234567''"

definition hashB :: string where
  "hashB = ''89abcdef0123456789abcdef0123456789abcdef''"



definition commitA :: GitCommit where
  \<comment> \<open>The first record of \<open>example_lines\<close> after its stat line, not yet finalized.\<close>
  "commitA =
     \<lparr>hash = hashA, date = Some 1704276000000, message = ''Fix parser'', author = ''Ann'',
      email = ''ann@example.org'', files = [''src/a.ts''], insertions = 1, deletions = 2,
      language = None\<rparr>"

definition commitB :: GitCommit where
  "commitB =
     \<lparr>hash = hashB, date = Some 1704186000000, message = ''Add docs'', author = ''Ann'',
      email = ''ann@example.org'', files = [''README.md''], insertions = 5, deletions = 0,
      language = None\<rparr>"

definition blank_lines :: "string list" where
  \<comment> \<open>A record, one stat line, a line of two tabs and one more stat line.\<close>
  "blank_lines =
     [hashA, ''2024-01-03T10:00:00+00:00'', ''Fix parser'', ''Ann'', ''ann@example.org'', [],
      ''1'' @ TAB # ''2'' @ TAB # ''src/a.ts'',
      [TAB, TAB],
      ''3'' @ TAB # ''4'' @ TAB # ''b.ts'']"

definition sum_cells :: "int list list \<Rightarrow> int" where
  \<comment> \<open>The sum of all cells of a punch card.\<close>
  "sum_cells grid = sum_list (map sum_list grid)"

definition has_cells :: "int list list \<Rightarrow> bool" where
  \<comment> \<open>The rows and cells the merger reads are there: 7 rows at least, the first 7 of
      24 cells at least.\<close>
  "has_cells grid \<longleftrightarrow> 7 \<le> length grid \<and> list_all (\<lambda>i. 24 \<le> length (grid ! i)) [0..<7]"

definition detail_of :: "GitAnalysisResult \<times> string \<times> string \<Rightarrow> ProjectDetail" where
  \<comment> \<open>The project detail the merger records for one input.\<close>
  "detail_of entry =
     (case entry of (result, projectPath, projectName) \<Rightarrow>
        \<lparr>d_path = projectPath, d_name = projectName, d_commits = totalCommits result,
         d_lines = netLines result, active = totalCommits result > 0\<rparr>)"

definition topLanguage :: "GitAnalysisResult \<Rightarrow> string" where
  \<comment> \<open>The top language the persona reads: \<open>languages[0] || 'Code'\<close>.\<close>
  "topLanguage stats =
     (case map fst (languageStats stats) of
        [] \<Rightarrow> ''Code'' | l # _ \<Rightarrow> if l = [] then ''Code'' else l)"

definition lateHourVolume :: "GitAnalysisResult \<Rightarrow> int" where
  \<comment> \<open>The late-hour volume the persona reads: \<open>byHour.get(23) || 0\<close>.\<close>
  "lateHourVolume stats =
     (case lookup (byHour (timeStats stats)) (Some 23) of None \<Rightarrow> 0 | Some v \<Rightarrow> v)"

definition commitC :: GitCommit where
  \<comment> \<open>A commit of another repository on the day of \<open>commitA\<close>.\<close>
  "commitC =
     \<lparr>hash = hashB, date = Some 1704290400000, message = ''Add tests'', author = ''Ann'',
      email = ''ann@example.org'', files = [''test/a.ts''], insertions = 7, deletions = 0,
      language = Some ''TypeScript''\<rparr>"

definition merge_example :: "(GitAnalysisResult \<times> string \<times> string) list" where
  \<comment> \<open>Three results with the commit totals 10, 0 and 5.\<close>
  "merge_example =
     [(emptyMerged\<lparr>totalCommits := 10\<rparr>, ''/repos/a'', ''a''),
      (emptyMerged, ''/repos/b'', ''b''),
      (emptyMerged\<lparr>totalCommits := 5\<rparr>, ''/repos/c'', ''c'')]"

definition same_day_example :: "(GitAnalysisResult \<times> string \<times> string) list" where
  \<comment> \<open>The results of two repositories with one commit each, on the same day.\<close>
  "same_day_example =
     [(projr (analyze utc_host ''/repos/a'' [commitA]), ''/repos/a'', ''a''),
      (projr (analyze utc_host ''/repos/c'' [commitC]), ''/repos/c'', ''c'')]"

definition busy_stats :: GitAnalysisResult where
  "busy_stats =
     emptyMerged\<lparr>totalCommits := 150, totalInsertions := 900, totalDeletions := 300,
                  netLines := 600\<rparr>"

definition next_year_host :: host where
  \<comment> \<open>The example host one year later, at 2025-01-01T10:00:00Z.\<close>
  "next_year_host = utc_host\<lparr>Date_now := 1735725600000\<rparr>"

section \<open>The parser: one step of the loop\<close>

lemma parse_loop_end:
  "length lines \<le> lineIdx \<Longrightarrow>
   parse_loop h lines lineIdx st cur commits = finalizeCommit commits cur"
  by (subst parse_loop.simps) simp

lemma parse_loop_meta:
  "parse_loop h lines lineIdx Meta cur commits =
     (if lineIdx < length lines then
        if length lines \<le> lineIdx + 4 then finalizeCommit commits cur
        else parse_loop h lines (skipBlank lines (lineIdx + 5)) Stats
               (Some (readMeta h lines lineIdx)) commits
      else finalizeCommit commits cur)"
  by (subst parse_loop.simps) (simp add: newRecord_def)

lemma parse_loop_fresh:
  "lineIdx < length lines \<Longrightarrow> newRecord Stats (lines ! lineIdx) \<Longrightarrow>
   parse_loop h lines lineIdx Stats cur commits =
     (if length lines \<le> lineIdx + 4 then finalizeCommit commits cur
      else parse_loop h lines (skipBlank lines (lineIdx + 5)) Stats
             (Some (readMeta h lines lineIdx)) (finalizeCommit commits cur))"
  by (subst parse_loop.simps) (simp add: finalizeCommit_def)

lemma parse_loop_stats:
  "lineIdx < length lines \<Longrightarrow> \<not> newRecord Stats (lines ! lineIdx) \<Longrightarrow>
   parse_loop h lines lineIdx Stats cur commits =
     (if trim (lines ! lineIdx) = [] then parse_loop h lines (lineIdx + 1) Stats cur commits
      else parse_loop h lines (lineIdx + 1) Stats (numstat (lines ! lineIdx) cur) commits)"
  by (subst parse_loop.simps) simp

lemma finalizeCommit_prefix: "\<exists>rest. finalizeCommit commits cur = commits @ rest"
  by (simp add: finalizeCommit_def split: option.splits)

lemma parse_loop_prefix: "\<exists>rest. parse_loop h lines lineIdx st cur commits = commits @ rest"
proof (induction "length lines - lineIdx" arbitrary: lineIdx st cur commits rule: less_induct)
  case less
  have fin: "\<exists>rest. finalizeCommit cs c = cs @ rest" for cs c
    by (rule finalizeCommit_prefix)
  show ?case
  proof (cases "lineIdx < length lines")
    case False
    then show ?thesis using fin by (simp add: parse_loop_end)
  next
    case True
    have next5: "\<exists>rest. parse_loop h lines (skipBlank lines (lineIdx + 5)) Stats c cs = cs @ rest"
      for c cs
      using True skipBlank_ge [of "lineIdx + 5" lines] by (intro less) simp
    have next1: "\<exists>rest. parse_loop h lines (lineIdx + 1) Stats c cs = cs @ rest" for c cs
      using True by (intro less) simp
    show ?thesis
    proof (cases st)
      case Meta
      then show ?thesis using True fin next5 by (simp add: parse_loop_meta)
    next
      case Stats
      show ?thesis
      proof (cases "newRecord Stats (lines ! lineIdx)")
        case fresh: True
        obtain r1 where r1: "finalizeCommit commits cur = commits @ r1" using fin by blast
        obtain r2 where "parse_loop h lines (skipBlank lines (lineIdx + 5)) Stats
              (Some (readMeta h lines lineIdx)) (commits @ r1) = (commits @ r1) @ r2"
          using next5 by blast
        with r1 True fresh Stats show ?thesis by (simp add: parse_loop_fresh)
      next
        case False
        with True Stats next1 show ?thesis by (simp add: parse_loop_stats)
      qed
    qed
  qed
qed







lemma split_on_no_sep:
  "sep \<notin> set a \<Longrightarrow> split_on sep (a @ s) cur = split_on sep s (cur @ a)"
  by (induction a arbitrary: cur) auto

lemma split_join_lines:
  "ls \<noteq> [] \<Longrightarrow> \<forall>l \<in> set ls. LF \<notin> set l \<Longrightarrow> split LF (join_lines ls) = ls"
proof (induction ls rule: join_lines.induct)
  case 1
  then show ?case by simp
next
  case (2 l)
  then have "split_on LF (l @ []) [] = split_on LF [] ([] @ l)"
    by (intro split_on_no_sep) simp
  then show ?case by (simp add: split_def)
next
  case (3 l v va)
  then have "split_on LF (l @ LF # join_lines (v # va)) [] =
      split_on LF (LF # join_lines (v # va)) ([] @ l)"
    by (intro split_on_no_sep) simp
  with 3 show ?case by (simp add: split_def)
qed

lemma skipBlank_blank:
  "\<forall>j. lineIdx \<le> j \<and> j < length lines \<longrightarrow> trim (lines ! j) = [] \<Longrightarrow>
   lineIdx \<le> length lines \<Longrightarrow> skipBlank lines lineIdx = length lines"
proof (induction lines lineIdx rule: skipBlank.induct)
  case (1 lines lineIdx)
  show ?case
  proof (cases "lineIdx < length lines")
    case True
    with "1.prems" have b: "trim (lines ! lineIdx) = []" by simp
    from True b "1.IH" "1.prems" have "skipBlank lines (lineIdx + 1) = length lines" by simp
    with True b show ?thesis by (subst skipBlank.simps) simp
  next
    case False
    with "1.prems" show ?thesis by (subst skipBlank.simps) simp
  qed
qed

section \<open>The parser: the claims\<close>




text \<open>
  C7. A text that is one header of five lines, the first of them not empty, with
  nothing after it but blank lines, parses to exactly one commit, with no insertions,
  no deletions, no files and the language \<open>Unknown\<close>, which is what the classifier
  answers for an empty list of files.
\<close>

theorem single_header_block:
  "(l1 \<noteq> [] \<and> (\<forall>l \<in> set ([l1, l2, l3, l4, l5] @ blanks). LF \<notin> set l)
      \<and> (\<forall>b \<in> set blanks. trim b = []) \<longrightarrow>
    parseRawLog h (join_lines ([l1, l2, l3, l4, l5] @ blanks)) =
      [\<lparr>hash = l1, date = Date_parse h l2, message = l3, author = l4, email = l5,
        files = [], insertions = 0, deletions = 0, language = Some ''Unknown''\<rparr>])
   \<and> detectLanguage [] = ''Unknown''"
proof (intro conjI impI)
  assume a: "l1 \<noteq> [] \<and> (\<forall>l \<in> set ([l1, l2, l3, l4, l5] @ blanks). LF \<notin> set l)
      \<and> (\<forall>b \<in> set blanks. trim b = [])"
  let ?lines = "[l1, l2, l3, l4, l5] @ blanks"
  have s: "split LF (join_lines ?lines) = ?lines"
    using a by (intro split_join_lines) simp_all
  have b: "\<forall>j. 5 \<le> j \<and> j < length ?lines \<longrightarrow> trim (?lines ! j) = []"
    using a by (auto simp: nth_append)
  have k: "skipBlank ?lines 5 = length ?lines"
    using b by (intro skipBlank_blank) simp_all
  have "parse_loop h ?lines 0 Meta None [] =
      parse_loop h ?lines (skipBlank ?lines 5) Stats (Some (readMeta h ?lines 0)) []"
    by (subst parse_loop_meta) simp
  also have "\<dots> = finalizeCommit [] (Some (readMeta h ?lines 0))"
    unfolding k by (rule parse_loop_end) simp
  finally show "parseRawLog h (join_lines ?lines) =
      [\<lparr>hash = l1, date = Date_parse h l2, message = l3, author = l4, email = l5,
        files = [], insertions = 0, deletions = 0, language = Some ''Unknown''\<rparr>]"
    using a unfolding parseRawLog_def s
    by (simp add: finalizeCommit_def readMeta_def detectLanguage_def)
next
  show "detectLanguage [] = ''Unknown''"
    by (simp add: detectLanguage_def)
qed

theorem single_header_block_witness:
  "hashA \<noteq> []
   \<and> list_all (\<lambda>l. LF \<notin> set l)
       ([hashA, ''2024-01-03T10:00:00+00:00'', ''Fix parser'', ''Ann'', ''ann@example.org''] @ [[]])
   \<and> list_all (\<lambda>b. trim b = []) [[]]
   \<and> parseRawLog utc_host
       (hashA @ LF # ''2024-01-03T10:00:00+00:00'' @ LF # ''Fix parser'' @ LF # ''Ann'' @ LF #
        ''ann@example.org'' @ [LF]) =
       [\<lparr>hash = hashA, date = Some 1704276000000, message = ''Fix parser'', author = ''Ann'',
         email = ''ann@example.org'', files = [], insertions = 0, deletions = 0,
         language = Some ''Unknown''\<rparr>]"
proof -
  have hyp: "hashA \<noteq> []
      \<and> list_all (\<lambda>l. LF \<notin> set l)
          ([hashA, ''2024-01-03T10:00:00+00:00'', ''Fix parser'', ''Ann'',
            ''ann@example.org''] @ [[]])
      \<and> list_all (\<lambda>b. trim b = []) [[]]"
    by code_simp
  have d: "Date_parse utc_host ''2024-01-03T10:00:00+00:00'' = Some 1704276000000"
    by code_simp
  from single_header_block
    [where ?l1.0 = hashA and ?l2.0 = "''2024-01-03T10:00:00+00:00''" and ?l3.0 = "''Fix parser''"
       and ?l4.0 = "''Ann''" and ?l5.0 = "''ann@example.org''" and blanks = "[[]]"
       and h = utc_host]
    hyp d
  show ?thesis by (simp add: list_all_iff)
qed

text \<open>
  C4, as the claim states it, fails on a line of white space that holds two tabs: it
  splits on the tab into three fields, all empty, yet the test for a blank line comes
  first and the line is skipped, so the pending record stays as it is. Line 7 of
  \<open>blank_lines\<close> is such a line, met in the Stats state.
\<close>

theorem blank_triple_counterexample:
  "split TAB (blank_lines ! 7) = [[], [], []]
   \<and> \<not> newRecord Stats (blank_lines ! 7)
   \<and> parse_loop utc_host blank_lines 7 Stats (Some commitA) [] \<noteq>
       parse_loop utc_host blank_lines 8 Stats
         (Some (commitA\<lparr>insertions := insertions commitA + numField [],
                         deletions := deletions commitA + numField [],
                         files := files commitA @ [[]]\<rparr>)) []
   \<and> parseRawLog utc_host (join_lines blank_lines) =
       [\<lparr>hash = hashA, date = Some 1704276000000, message = ''Fix parser'', author = ''Ann'',
         email = ''ann@example.org'', files = [''src/a.ts'', ''b.ts''], insertions = 4,
         deletions = 6, language = Some ''TypeScript''\<rparr>]"
  by code_simp

text \<open>
  C4, amended. A line met in the Stats state that does not start a record and is not
  blank is accumulated into the pending record when it splits on the tab into exactly
  three fields (a field \<open>-\<close> counts as 0, and so does a field \<open>parseInt\<close> cannot
  read), and is skipped, the pending record unchanged, when the number of fields is
  another; a blank line is skipped whatever it splits into. No step fails, and the
  commits pushed so far stay in the result.
\<close>

theorem stat_line_accumulated:
  "(lineIdx < length lines \<and> \<not> newRecord Stats (lines ! lineIdx) \<longrightarrow>
      (trim (lines ! lineIdx) \<noteq> [] \<and> split TAB (lines ! lineIdx) = [a, b, f] \<longrightarrow>
         parse_loop h lines lineIdx Stats (Some c) commits =
           parse_loop h lines (lineIdx + 1) Stats
             (Some (c\<lparr>insertions := insertions c + numField a,
                      deletions := deletions c + numField b,
                      files := files c @ [f]\<rparr>)) commits)
      \<and> (trim (lines ! lineIdx) = [] \<or> length (split TAB (lines ! lineIdx)) \<noteq> 3 \<longrightarrow>
           parse_loop h lines lineIdx Stats cur commits =
             parse_loop h lines (lineIdx + 1) Stats cur commits))
   \<and> numField ''-'' = 0
   \<and> (parseInt a = None \<longrightarrow> numField a = 0)
   \<and> (\<exists>rest. parse_loop h lines lineIdx st cur commits = commits @ rest)"
proof -
  have "numField ''-'' = 0"
    by (simp add: numField_def)
  moreover have "parseInt a = None \<longrightarrow> numField a = 0"
    by (simp add: numField_def)
  moreover have "\<exists>rest. parse_loop h lines lineIdx st cur commits = commits @ rest"
    by (rule parse_loop_prefix)
  ultimately show ?thesis
    by (simp add: parse_loop_stats numstat_def Let_def)
qed

theorem stat_line_accumulated_witness:
  "6 < length blank_lines \<and> \<not> newRecord Stats (blank_lines ! 6)
   \<and> trim (blank_lines ! 6) \<noteq> []
   \<and> split TAB (blank_lines ! 6) = [''1'', ''2'', ''src/a.ts'']
   \<and> parse_loop utc_host blank_lines 6 Stats (Some (commitA\<lparr>files := [], insertions := 0, deletions := 0\<rparr>)) [] =
       parse_loop utc_host blank_lines 7 Stats (Some commitA) []
   \<and> trim (blank_lines ! 7) = []
   \<and> parse_loop utc_host blank_lines 7 Stats (Some commitA) [] =
       parse_loop utc_host blank_lines 8 Stats (Some commitA) []"
proof -
  have hyp: "6 < length blank_lines \<and> \<not> newRecord Stats (blank_lines ! 6)
      \<and> trim (blank_lines ! 6) \<noteq> []
      \<and> split TAB (blank_lines ! 6) = [''1'', ''2'', ''src/a.ts'']
      \<and> 7 < length blank_lines \<and> \<not> newRecord Stats (blank_lines ! 7)
      \<and> trim (blank_lines ! 7) = []"
    by code_simp
  have upd: "(commitA\<lparr>files := [], insertions := 0, deletions := 0\<rparr>)
      \<lparr>insertions := insertions (commitA\<lparr>files := [], insertions := 0, deletions := 0\<rparr>) + numField ''1'',
       deletions := deletions (commitA\<lparr>files := [], insertions := 0, deletions := 0\<rparr>) + numField ''2'',
       files := files (commitA\<lparr>files := [], insertions := 0, deletions := 0\<rparr>) @ [''src/a.ts'']\<rparr> = commitA"
    by code_simp
  from stat_line_accumulated
    [where lineIdx = 6 and lines = blank_lines and h = utc_host and a = "''1''" and b = "''2''"
       and f = "''src/a.ts''" and c = "commitA\<lparr>files := [], insertions := 0, deletions := 0\<rparr>"
       and commits = "[]"]
    stat_line_accumulated
    [where lineIdx = 7 and lines = blank_lines and h = utc_host and cur = "Some commitA"
       and commits = "[]"]
    hyp upd
  show ?thesis by simp
qed

section \<open>The punch card\<close>

lemma sum_list_update_int:
  "i < length xs \<Longrightarrow> sum_list (xs[i := v]) = sum_list xs + v - (xs ! i :: int)"
proof (induction xs arbitrary: i)
  case Nil
  then show ?case by simp
next
  case (Cons x xs)
  then show ?case by (cases i) simp_all
qed

lemma sum_cells_punch:
  assumes "d < length grid" and "k < length (grid ! d)"
  shows "sum_cells (grid[d := (grid ! d)[k := grid ! d ! k + 1]]) = sum_cells grid + 1"
proof -
  have "sum_cells (grid[d := (grid ! d)[k := grid ! d ! k + 1]]) =
      sum_list ((map sum_list grid)[d := sum_list ((grid ! d)[k := grid ! d ! k + 1])])"
    by (simp add: sum_cells_def map_update)
  also have "\<dots> = sum_list (map sum_list grid) + sum_list ((grid ! d)[k := grid ! d ! k + 1])
      - sum_list (grid ! d)"
    using assms(1) by (simp add: sum_list_update_int)
  also have "sum_list ((grid ! d)[k := grid ! d ! k + 1]) = sum_list (grid ! d) + 1"
    using assms(2) by (simp add: sum_list_update_int)
  finally show ?thesis by (simp add: sum_cells_def)
qed

lemma punch_Inr:
  assumes "punch h grid c = Inr grid'"
  shows "sum_cells grid' = sum_cells grid + 1 \<and> map length grid' = map length grid"
proof -
  from assms obtain d k where dk: "day_of h (date c) = Some d" "hour_of h (date c) = Some k"
    by (auto simp: punch_def split: option.splits)
  with assms have r: "0 \<le> d" "d < int (length grid)" "0 \<le> k" "k < int (length (grid ! nat d))"
    and g: "grid' = grid[nat d := (grid ! nat d)[nat k := grid ! nat d ! nat k + 1]]"
    by (auto simp: punch_def split: if_splits)
  from r have "nat d < length grid" "nat k < length (grid ! nat d)" by linarith+
  then have "sum_cells grid' = sum_cells grid + 1"
    unfolding g by (rule sum_cells_punch)
  moreover have "map length grid' = map length grid"
    unfolding g using \<open>nat d < length grid\<close> by (simp add: map_update list_update_same_conv)
  ultimately show ?thesis by simp
qed

lemma punch_valid:
  assumes "date c \<noteq> None" and "length grid = 7" and "\<forall>row \<in> set grid. length row = 24"
  shows "\<exists>grid'. punch h grid c = Inr grid'"
proof -
  from assms(1) obtain t where t: "date c = Some t" by auto
  define d where "d = (local_day h t + 4) mod 7"
  define k where "k = (local_ms h t div msPerHour) mod 24"
  have d: "0 \<le> d" "d < 7" and k: "0 \<le> k" "k < 24" by (simp_all add: d_def k_def)
  then have "nat d < length grid" using assms(2) by linarith
  then have "length (grid ! nat d) = 24" using assms(3) by simp
  with d k assms(2) show ?thesis
    by (simp add: punch_def day_of_def hour_of_def t d_def [symmetric] k_def [symmetric])
qed

lemma punch_loop_Inr:
  "punch_loop h grid commits = Inr grid' \<Longrightarrow>
   sum_cells grid' = sum_cells grid + int (length commits) \<and> map length grid' = map length grid"
proof (induction commits arbitrary: grid)
  case Nil
  then show ?case by simp
next
  case (Cons c commits)
  then obtain g1 where g1: "punch h grid c = Inr g1" and r: "punch_loop h g1 commits = Inr grid'"
    by (auto split: sum.splits)
  from punch_Inr [OF g1] Cons.IH [OF r] show ?case by simp
qed

lemma punch_loop_valid:
  "\<forall>c \<in> set commits. date c \<noteq> None \<Longrightarrow> map length grid = replicate 7 24 \<Longrightarrow>
   \<exists>grid'. punch_loop h grid commits = Inr grid'"
proof (induction commits arbitrary: grid)
  case Nil
  then show ?case by simp
next
  case (Cons c commits)
  from Cons.prems(2) have len: "length grid = 7"
    by (metis length_map length_replicate)
  have rows: "\<forall>row \<in> set grid. length row = 24"
  proof
    fix row assume "row \<in> set grid"
    then have "length row \<in> set (map length grid)" by simp
    with Cons.prems(2) show "length row = 24" by simp
  qed
  from Cons.prems(1) have "date c \<noteq> None" by simp
  from punch_valid [OF this len rows] obtain g1 where g1: "punch h grid c = Inr g1" by blast
  from punch_Inr [OF g1] Cons.prems(2) have "map length g1 = replicate 7 24" by simp
  with Cons.IH [of g1] Cons.prems(1) obtain g2 where "punch_loop h g1 commits = Inr g2" by auto
  with g1 show ?case by simp
qed

lemma length_insert_by: "length (insert_by gt x ys) = Suc (length ys)"
proof -
  have "length (dropWhile (\<lambda>y. gt y x) (rev ys)) + length (takeWhile (\<lambda>y. gt y x) (rev ys)) =
      length (rev ys)"
    by (metis add.commute length_append takeWhile_dropWhile_id)
  then show ?thesis by (simp add: insert_by_def)
qed

lemma length_foldl_insert_by:
  "length (foldl (\<lambda>acc x. insert_by gt x acc) acc xs) = length acc + length xs"
  by (induction xs arbitrary: acc) (simp_all add: length_insert_by)

lemma length_sort_by: "length (sort_by gt xs) = length xs"
  by (simp add: sort_by_def length_foldl_insert_by)

lemma analyze_punchCard:
  assumes "analyze h repositoryPath commits = Inr r"
  shows "analyzePunchCard h (if length commits = 0 then commits else sortByTime commits) = Inr (punchCard r)
    \<and> totalCommits r = int (length commits)"
  using assms
  by (auto simp: analyze_def Let_def sortByTime_def length_sort_by split: sum.splits)


lemma analyzePunchCard_Inr:
  assumes "analyzePunchCard h cs = Inr g"
  shows "sum_cells g = int (length cs) \<and> map length g = replicate 7 24"
proof -
  have z: "sum_cells (replicate 7 (replicate 24 0)) = 0"
    by (simp add: sum_cells_def sum_list_replicate)
  have shape: "map length (replicate 7 (replicate 24 (0::int))) = replicate 7 24"
    by simp
  from assms have "punch_loop h (replicate 7 (replicate 24 0)) cs = Inr g"
    by (simp add: analyzePunchCard_def)
  from punch_loop_Inr [OF this] z shape show ?thesis by simp
qed

text \<open>
  C2. The punch card \<open>analyzePunchCard\<close> returns has 7 rows of 24 cells, and its
  cells add up to the number of commits. It returns one for every list of commits
  whose dates are valid; on an Invalid Date \<open>card[NaN][NaN]++\<close> throws, and then no
  punch card is produced. In the result of \<open>analyze\<close> the sum is \<open>totalCommits\<close>, the
  length of the commit list.
\<close>

theorem punch_card_sum:
  "((\<forall>c \<in> set commits. date c \<noteq> None) \<longrightarrow>
      (\<exists>grid. analyzePunchCard h commits = Inr grid \<and> length grid = 7
         \<and> (\<forall>row \<in> set grid. length row = 24) \<and> sum_cells grid = int (length commits)))
   \<and> (analyzePunchCard h commits = Inr grid' \<longrightarrow> sum_cells grid' = int (length commits))
   \<and> (analyze h repositoryPath commits = Inr r \<longrightarrow>
        sum_cells (punchCard r) = totalCommits r \<and> totalCommits r = int (length commits))"
proof (intro conjI impI)
  have shape: "map length (replicate 7 (replicate 24 (0::int))) = replicate 7 24"
    by simp
  note key = analyzePunchCard_Inr
  {
    assume "\<forall>c \<in> set commits. date c \<noteq> None"
    from punch_loop_valid [OF this shape] obtain g where
      g: "analyzePunchCard h commits = Inr g" by (auto simp: analyzePunchCard_def)
    from key [OF g] have s: "sum_cells g = int (length commits)"
      and m: "map length g = replicate 7 24" by simp_all
    from m have "length g = 7" by (metis length_map length_replicate)
    moreover have "\<forall>row \<in> set g. length row = 24"
    proof
      fix row assume "row \<in> set g"
      then have "length row \<in> set (map length g)" by simp
      with m show "length row = 24" by simp
    qed
    ultimately show "\<exists>grid. analyzePunchCard h commits = Inr grid \<and> length grid = 7
         \<and> (\<forall>row \<in> set grid. length row = 24) \<and> sum_cells grid = int (length commits)"
      using g s by blast
  }
  {
    assume "analyzePunchCard h commits = Inr grid'"
    from key [OF this] show "sum_cells grid' = int (length commits)" by simp
  }
  {
    assume a: "analyze h repositoryPath commits = Inr r"
    from analyze_punchCard [OF a] key
    have "sum_cells (punchCard r) = int (length (if length commits = 0 then commits else sortByTime commits))"
      by blast
    then have s: "sum_cells (punchCard r) = int (length commits)"
      by (simp add: sortByTime_def length_sort_by split: if_splits)
    from analyze_punchCard [OF a] s show "sum_cells (punchCard r) = totalCommits r" by simp
    from analyze_punchCard [OF a] show "totalCommits r = int (length commits)" by simp
  }
qed


theorem punch_card_sum_witness:
  "list_all (\<lambda>c. date c \<noteq> None) [commitA, commitB]
   \<and> (\<exists>grid. analyzePunchCard utc_host [commitA, commitB] = Inr grid \<and> length grid = 7
        \<and> list_all (\<lambda>row. length row = 24) grid \<and> sum_cells grid = 2)"
proof -
  have hyp: "list_all (\<lambda>c. date c \<noteq> None) [commitA, commitB]"
    by code_simp
  from punch_card_sum [where commits = "[commitA, commitB]" and h = utc_host] hyp
  show ?thesis by (simp add: list_all_iff)
qed

section \<open>Streaks\<close>

lemma current_loop_ge: "cs \<le> current_loop h ds cs"
proof (induction ds arbitrary: cs)
  case Nil
  then show ?case by simp
next
  case (Cons d ds)
  from Cons [of "cs + 1"] show ?case by simp
qed

lemma longest_loop_temp: "1 \<le> t \<Longrightarrow> 1 \<le> snd (longest_loop h prev ds l t)"
  by (induction ds arbitrary: prev l t) auto

lemma analyzeStreaks_nonneg:
  "0 \<le> currentStreak (analyzeStreaks h commits) \<and> 0 \<le> longestStreak (analyzeStreaks h commits)"
proof (cases "length commits = 0")
  case True
  then show ?thesis by (simp add: analyzeStreaks_def)
next
  case False
  define dates where "dates =
    sort_by text_gt (foldl (\<lambda>s c. set_add (date_text h (date c)) s) [] (sortByTime commits))"
  define lt where "lt = (case dates of [] \<Rightarrow> (1, 1) | d # ds \<Rightarrow> longest_loop h d ds 1 1)"
  have cur: "currentStreak (analyzeStreaks h commits) = current_loop h (rev dates) 0"
    and lon: "longestStreak (analyzeStreaks h commits) = max (fst lt) (snd lt)"
    using False
    by (simp_all add: analyzeStreaks_def Let_def dates_def lt_def split: prod.splits)
  have "1 \<le> snd lt"
  proof (cases dates)
    case Nil
    then show ?thesis by (simp add: lt_def)
  next
    case (Cons d ds)
    with longest_loop_temp [of 1 h d ds 1] show ?thesis by (simp add: lt_def)
  qed
  with cur lon current_loop_ge [of 0 h "rev dates"] show ?thesis by simp
qed

text \<open>
  C3. The bound \<open>longestStreak \<ge> currentStreak\<close> fails. The first loop counts a day
  as the next of a run when \<open>diff\<close> of the moments of the two date texts is 1, and
  \<open>diff\<close> is the time between the two local midnights in whole days; the second loop
  compares the texts of the calendar days before today. In Santiago the clocks went
  forward at midnight of 2024-09-08, so that day begins at 01:00 and the midnight of
  2024-09-09 comes 23 hours later: \<open>diff\<close> is 0. With one commit at noon on each of
  2024-09-07, 2024-09-08 and 2024-09-09 and the clock on 2024-09-09, the three days
  are active days in a row, the current streak is 3 and the longest streak is 2.
\<close>

theorem streak_dst_gap:
  "map (\<lambda>c. date_text santiago_host (date c)) dst_commits =
     [''2024-09-07'', ''2024-09-08'', ''2024-09-09'']
   \<and> expectedDate santiago_host 0 = ''2024-09-09''
   \<and> diff_days santiago_host ''2024-09-08'' ''2024-09-07'' = Some 1
   \<and> diff_days santiago_host ''2024-09-09'' ''2024-09-08'' = Some 0
   \<and> analyzeStreaks santiago_host dst_commits =
       \<lparr>longestStreak = 2, currentStreak = 3, totalActiveDays = 3\<rparr>"
  by code_simp

section \<open>No commits and no results\<close>

text \<open>
  C5. For no commits \<open>analyze\<close> returns a result, so nothing threw and no division
  had a zero divisor, and every aggregate is at its baseline: the totals are 0, the maps
  and lists are empty, the streaks are 0, the punch card is all zeros, and nothing is
  unlocked. The persona is the default one, whose description embeds the year.
\<close>

theorem analyze_no_commits:
  "analyze h repositoryPath [] =
     Inr \<lparr>totalCommits = 0, totalInsertions = 0, totalDeletions = 0, netLines = 0,
          languageStats = [],
          timeStats = \<lparr>byHour = [], byDayOfWeek = [], byMonth = []\<rparr>,
          streakStats = \<lparr>longestStreak = 0, currentStreak = 0, totalActiveDays = 0\<rparr>,
          projectStats =
            [\<lparr>p_path = repositoryPath, p_name = basename repositoryPath, p_commits = 0,
              p_lines = 0\<rparr>],
          commitTrends = \<lparr>monthly = [], daily = []\<rparr>,
          punchCard = replicate 7 (replicate 24 0),
          topKeywords = [],
          achievements = [],
          persona = \<lparr>title = Apprentice, description = YearSummary (getFullYear h) 0 0\<rparr>\<rparr>"
  by (simp add: analyze_def analyzeTimePatterns_def analyzeStreaks_def analyzeProjects_def
      analyzeLanguages_def analyzePunchCard_def analyzeTrends_def sortMap_def sort_by_def
      analyzeKeywords_def calculateAchievements_def divide_num_def calculatePersona_def)

text \<open>
  C9. The merger throws on an empty list of results; it returns no merged result
  there, unlike \<open>analyze\<close> on no commits.
\<close>

theorem merge_nothing_throws:
  "mergeAnalysisResults h [] = Inl NoResults"
  by (simp add: mergeAnalysisResults_def)

section \<open>The merger: what the loop adds up\<close>

lemma add_cards_ok: "has_cells other \<Longrightarrow> \<exists>g. add_cards merged other = Inr g"
  by (auto simp: has_cells_def add_cards_def list_ex_iff list_all_iff)

lemma merge_one_ok:
  "has_cells (punchCard (fst entry)) \<Longrightarrow> \<exists>acc'. merge_one acc entry = Inr acc'"
proof -
  assume a: "has_cells (punchCard (fst entry))"
  obtain merged pd where acc: "acc = (merged, pd)" by (cases acc)
  obtain result p n where e: "entry = (result, p, n)" by (cases entry)
  from a e add_cards_ok [of "punchCard result" "punchCard merged"]
  obtain g where "add_cards (punchCard merged) (punchCard result) = Inr g" by auto
  then show ?thesis by (simp add: merge_one_def acc e)
qed

lemma merge_one_Inr:
  assumes "merge_one (merged, pd) entry = Inr (m, d)"
  shows "totalCommits m = totalCommits merged + totalCommits (fst entry)"
    and "totalInsertions m = totalInsertions merged + totalInsertions (fst entry)"
    and "totalDeletions m = totalDeletions merged + totalDeletions (fst entry)"
    and "netLines m = netLines merged + netLines (fst entry)"
    and "longestStreak (streakStats m) =
          max (longestStreak (streakStats merged)) (longestStreak (streakStats (fst entry)))"
    and "currentStreak (streakStats m) =
          max (currentStreak (streakStats merged)) (currentStreak (streakStats (fst entry)))"
    and "totalActiveDays (streakStats m) =
          totalActiveDays (streakStats merged) + totalActiveDays (streakStats (fst entry))"
    and "d = pd @ [detail_of entry]"
  using assms
  by (auto simp: merge_one_def detail_of_def split: prod.splits sum.splits)

lemma merge_loop_ok:
  "\<forall>r \<in> set results. has_cells (punchCard (fst r)) \<Longrightarrow> \<exists>acc'. merge_loop acc results = Inr acc'"
proof (induction results arbitrary: acc)
  case Nil
  then show ?case by simp
next
  case (Cons entry results)
  then have "has_cells (punchCard (fst entry))" by simp
  from merge_one_ok [OF this] obtain acc1 where "merge_one acc entry = Inr acc1" by blast
  with Cons.IH [of acc1] Cons.prems show ?case by simp
qed

lemma merge_loop_Inr:
  "merge_loop (merged, pd) results = Inr (m, d) \<Longrightarrow>
   totalCommits m = totalCommits merged + sum_list (map (\<lambda>r. totalCommits (fst r)) results)
   \<and> totalInsertions m =
       totalInsertions merged + sum_list (map (\<lambda>r. totalInsertions (fst r)) results)
   \<and> totalDeletions m =
       totalDeletions merged + sum_list (map (\<lambda>r. totalDeletions (fst r)) results)
   \<and> netLines m = netLines merged + sum_list (map (\<lambda>r. netLines (fst r)) results)
   \<and> longestStreak (streakStats m) =
       foldl max (longestStreak (streakStats merged))
         (map (\<lambda>r. longestStreak (streakStats (fst r))) results)
   \<and> currentStreak (streakStats m) =
       foldl max (currentStreak (streakStats merged))
         (map (\<lambda>r. currentStreak (streakStats (fst r))) results)
   \<and> totalActiveDays (streakStats m) =
       totalActiveDays (streakStats merged)
         + sum_list (map (\<lambda>r. totalActiveDays (streakStats (fst r))) results)
   \<and> d = pd @ map detail_of results"
proof (induction results arbitrary: merged pd)
  case Nil
  then show ?case by simp
next
  case (Cons entry results)
  then obtain m1 d1 where one: "merge_one (merged, pd) entry = Inr (m1, d1)"
    and rest: "merge_loop (m1, d1) results = Inr (m, d)"
    by (auto split: sum.splits)
  note f = merge_one_Inr [OF one]
  from Cons.IH [OF rest] show ?case
    unfolding f by simp
qed

lemma foldl_max: "foldl max (a::int) xs = Max (insert a (set xs))"
proof (induction xs arbitrary: a)
  case Nil
  then show ?case by simp
next
  case (Cons x xs)
  have "Max (insert (max a x) (set xs)) = Max (insert a (insert x (set xs)))"
    by (cases "xs = []") (simp_all add: max.assoc)
  with Cons show ?case by simp
qed

lemma collect_Inr:
  "\<forall>x \<in> set xs. \<exists>v. f x = Inr v \<Longrightarrow> \<exists>vs. collect (map f xs) = Inr vs"
proof (induction xs)
  case Nil
  then show ?case by simp
next
  case (Cons x xs)
  then obtain v vs where "f x = Inr v" "collect (map f xs) = Inr vs" by auto
  then show ?case by simp
qed

lemma divide_num_Inr: "b \<noteq> 0 \<Longrightarrow> divide_num a b = Inr (of_int a / of_int b)"
  by (simp add: divide_num_def)

lemma calculateAchievements_ok:
  "\<exists>as. calculateAchievements h stats commits = Inr as
     \<and> milestone ''loyal-developer'' \<notin> set as"
proof -
  have a: "\<exists>q. (if totalCommits stats > 0
               then divide_num (totalInsertions stats + totalDeletions stats) (totalCommits stats)
               else Inr 0) = Inr q"
    by (simp add: divide_num_def)
  have b: "\<exists>q. divide_num (totalDeletions stats)
                (if totalInsertions stats = 0 then 1 else totalInsertions stats) = Inr q"
    by (simp add: divide_num_def)
  from a b obtain q1 q2 where
    q1: "(if totalCommits stats > 0
               then divide_num (totalInsertions stats + totalDeletions stats) (totalCommits stats)
               else Inr 0) = Inr q1"
    and q2: "divide_num (totalDeletions stats)
                (if totalInsertions stats = 0 then 1 else totalInsertions stats) = Inr q2"
    by blast
  show ?thesis
    unfolding calculateAchievements_def Let_def q1 q2
    by (auto simp: milestone_def)
qed


lemma length_filter_insert_by:
  "length (filter P (insert_by gt x ys)) = length (filter P (x # ys))"
proof -
  let ?Q = "\<lambda>y. gt y x"
  have "filter P (rev ys) = filter P (takeWhile ?Q (rev ys)) @ filter P (dropWhile ?Q (rev ys))"
    by (metis filter_append takeWhile_dropWhile_id)
  then have "length (filter P (rev ys)) =
      length (filter P (takeWhile ?Q (rev ys))) + length (filter P (dropWhile ?Q (rev ys)))"
    by simp
  moreover have "length (filter P (rev ys)) = length (filter P ys)"
    by (metis length_rev rev_filter)
  moreover have "length (filter P (rev (dropWhile ?Q (rev ys)))) =
      length (filter P (dropWhile ?Q (rev ys)))"
    by (metis length_rev rev_filter)
  moreover have "length (filter P (rev (takeWhile ?Q (rev ys)))) =
      length (filter P (takeWhile ?Q (rev ys)))"
    by (metis length_rev rev_filter)
  ultimately show ?thesis by (simp add: insert_by_def)
qed

lemma length_filter_foldl_insert_by:
  "length (filter P (foldl (\<lambda>acc x. insert_by gt x acc) acc xs)) =
     length (filter P acc) + length (filter P xs)"
  by (induction xs arbitrary: acc) (simp_all add: length_filter_insert_by)

lemma length_filter_sort_by: "length (filter P (sort_by gt xs)) = length (filter P xs)"
  by (simp add: sort_by_def length_filter_foldl_insert_by)

lemma length_sort_by': "length (sort_by gt xs) = length xs"
  using length_filter_sort_by [of "\<lambda>x. True" gt xs] by simp

lemma addProjectMilestones_fields:
  "totalCommits (addProjectMilestones h x d) = totalCommits x"
  "totalInsertions (addProjectMilestones h x d) = totalInsertions x"
  "totalDeletions (addProjectMilestones h x d) = totalDeletions x"
  "netLines (addProjectMilestones h x d) = netLines x"
  "streakStats (addProjectMilestones h x d) = streakStats x"
  by (simp_all add: addProjectMilestones_def Let_def)

lemma addProjectMilestones_loyal:
  "milestone ''loyal-developer'' \<in> set (achievements (addProjectMilestones h x d)) \<longleftrightarrow>
     milestone ''loyal-developer'' \<in> set (achievements x)
     \<or> (length d = 1 \<and> length (filter active d) = 1)"
  by (auto simp: addProjectMilestones_def Let_def milestone_def set_add_def)


lemma calculateAchievements_case:
  "(case calculateAchievements h s c of Inl e \<Rightarrow> A e | Inr a \<Rightarrow> B a) =
     B (projr (calculateAchievements h s c))"
  using calculateAchievements_ok [of h s c] by auto

lemma calculateAchievements_not_loyal:
  "milestone ''loyal-developer'' \<notin> set (projr (calculateAchievements h s c))"
  using calculateAchievements_ok [of h s c] by auto

lemma recomputePercentages_case:
  "(case recomputePercentages l of Inl e \<Rightarrow> A e | Inr v \<Rightarrow> B v) =
     B (projr (recomputePercentages l))"
proof -
  have "\<exists>vs. recomputePercentages l = Inr vs"
    unfolding recomputePercentages_def Let_def
    by (rule collect_Inr) (auto simp: divide_num_def)
  then show ?thesis by auto
qed

lemma merge_summary:
  assumes "results \<noteq> []" and "\<forall>r \<in> set results. has_cells (punchCard (fst r))"
  shows "\<exists>m d. mergeAnalysisResults h results = Inr (m, d)
    \<and> totalCommits m = sum_list (map (\<lambda>r. totalCommits (fst r)) results)
    \<and> totalInsertions m = sum_list (map (\<lambda>r. totalInsertions (fst r)) results)
    \<and> totalDeletions m = sum_list (map (\<lambda>r. totalDeletions (fst r)) results)
    \<and> netLines m = sum_list (map (\<lambda>r. netLines (fst r)) results)
    \<and> longestStreak (streakStats m) =
        foldl max 0 (map (\<lambda>r. longestStreak (streakStats (fst r))) results)
    \<and> currentStreak (streakStats m) =
        foldl max 0 (map (\<lambda>r. currentStreak (streakStats (fst r))) results)
    \<and> totalActiveDays (streakStats m) =
        sum_list (map (\<lambda>r. totalActiveDays (streakStats (fst r))) results)
    \<and> d = sort_by (\<lambda>a b. d_commits b - d_commits a > 0) (map detail_of results)
    \<and> (milestone ''loyal-developer'' \<in> set (achievements m) \<longleftrightarrow>
         length d = 1 \<and> length (filter active d) = 1)"
proof -
  from merge_loop_ok [OF assms(2)] obtain merged pd where
    loop: "merge_loop (emptyMerged, []) results = Inr (merged, pd)" by fastforce
  note sums = merge_loop_Inr [OF loop]
  have zero: "totalCommits emptyMerged = 0" "totalInsertions emptyMerged = 0"
    "totalDeletions emptyMerged = 0" "netLines emptyMerged = 0"
    "streakStats emptyMerged = \<lparr>longestStreak = 0, currentStreak = 0, totalActiveDays = 0\<rparr>"
    by (simp_all add: emptyMerged_def)
  from sums have pd: "pd = map detail_of results" by simp
  show ?thesis
    using assms(1) sums
    by (simp add: mergeAnalysisResults_def loop recomputePercentages_case
        calculateAchievements_case calculateAchievements_not_loyal Let_def
        addProjectMilestones_fields addProjectMilestones_loyal zero pd)
qed

section \<open>Active days\<close>

lemma set_insert_by: "set (insert_by gt x ys) = insert x (set ys)"
proof -
  have "set (takeWhile (\<lambda>y. gt y x) (rev ys)) \<union> set (dropWhile (\<lambda>y. gt y x) (rev ys)) =
      set (rev ys)"
    by (metis set_append takeWhile_dropWhile_id)
  then show ?thesis by (auto simp: insert_by_def)
qed

lemma set_foldl_insert_by:
  "set (foldl (\<lambda>acc x. insert_by gt x acc) acc xs) = set acc \<union> set xs"
  by (induction xs arbitrary: acc) (simp_all add: set_insert_by)

lemma set_sort_by: "set (sort_by gt xs) = set xs"
  by (simp add: sort_by_def set_foldl_insert_by)

lemma foldl_set_add:
  "distinct acc \<Longrightarrow>
   distinct (foldl (\<lambda>s c. set_add (f c) s) acc xs)
   \<and> set (foldl (\<lambda>s c. set_add (f c) s) acc xs) = set acc \<union> f ` set xs"
proof (induction xs arbitrary: acc)
  case Nil
  then show ?case by simp
next
  case (Cons x xs)
  from Cons.prems have "distinct (set_add (f x) acc)"
    by (simp add: set_add_def)
  from Cons.IH [OF this] show ?case
    by (auto simp: set_add_def)
qed

lemma totalActiveDays_card:
  "totalActiveDays (analyzeStreaks h commits) =
     int (card ((\<lambda>c. date_text h (date c)) ` set commits))"
proof (cases "length commits = 0")
  case True
  then show ?thesis by (simp add: analyzeStreaks_def)
next
  case False
  let ?active = "foldl (\<lambda>s c. set_add (date_text h (date c)) s) [] (sortByTime commits)"
  from foldl_set_add [of "[]" "\<lambda>c. date_text h (date c)" "sortByTime commits"]
  have d: "distinct ?active"
    and s: "set ?active = (\<lambda>c. date_text h (date c)) ` set (sortByTime commits)"
    by simp_all
  have "totalActiveDays (analyzeStreaks h commits) = int (length (sort_by text_gt ?active))"
    using False by (simp add: analyzeStreaks_def Let_def split: prod.splits)
  also have "\<dots> = int (length ?active)"
    by (simp add: length_sort_by)
  also have "\<dots> = int (card (set ?active))"
    using d by (simp add: distinct_card)
  also have "set ?active = (\<lambda>c. date_text h (date c)) ` set commits"
    unfolding s by (simp add: sortByTime_def set_sort_by)
  finally show ?thesis .
qed

lemma shared_day_fewer:
  assumes "c1 \<in> set cs1" and "c2 \<in> set cs2"
    and "date_key h (date c1) = date_key h (date c2)"
  shows "totalActiveDays (analyzeStreaks h (cs1 @ cs2)) <
    totalActiveDays (analyzeStreaks h cs1) + totalActiveDays (analyzeStreaks h cs2)"
proof -
  let ?k = "\<lambda>c. date_text h (date c)"
  let ?A = "?k ` set cs1" and ?B = "?k ` set cs2"
  have fin: "finite ?A" "finite ?B" by simp_all
  from assms(3) have same: "?k c1 = ?k c2" by (simp add: date_text_def)
  have "?k c1 \<in> ?A" using assms(1) by (rule imageI)
  moreover have "?k c2 \<in> ?B" using assms(2) by (rule imageI)
  ultimately have "?k c1 \<in> ?A \<inter> ?B" using same by simp
  then have "0 < card (?A \<inter> ?B)"
    using fin by (metis card_gt_0_iff empty_iff finite_Int)
  moreover have "card ?A + card ?B = card (?A \<union> ?B) + card (?A \<inter> ?B)"
    using fin by (rule card_Un_Int)
  ultimately have "card (?A \<union> ?B) < card ?A + card ?B" by linarith
  moreover have "?k ` set (cs1 @ cs2) = ?A \<union> ?B" by auto
  ultimately show ?thesis
    by (simp add: totalActiveDays_card)
qed

lemma analyze_streakStats:
  "analyze h repositoryPath commits = Inr r \<Longrightarrow> streakStats r = analyzeStreaks h commits"
  by (auto simp: analyze_def Let_def split: sum.splits)

lemma analyze_result_shape:
  assumes "analyze h repositoryPath commits = Inr r"
  shows "has_cells (punchCard r) \<and> 0 \<le> currentStreak (streakStats r)
    \<and> 0 \<le> longestStreak (streakStats r)"
proof -
  from analyze_punchCard [OF assms] analyzePunchCard_Inr
  have m: "map length (punchCard r) = replicate 7 24" by blast
  then have l: "length (punchCard r) = 7" by (metis length_map length_replicate)
  have "24 \<le> length (punchCard r ! i)" if "i < 7" for i
  proof -
    from that l have "length (punchCard r ! i) = map length (punchCard r) ! i" by simp
    with m that show ?thesis by simp
  qed
  with l have cells: "has_cells (punchCard r)"
    by (simp add: has_cells_def list_all_iff)
  from assms have "streakStats r = analyzeStreaks h commits"
    by (auto simp: analyze_def Let_def split: sum.splits)
  with analyzeStreaks_nonneg [of h commits] cells show ?thesis by simp
qed

section \<open>The merger: the claims\<close>

lemma Max_insert_zero:
  assumes "xs \<noteq> []" and "\<forall>x \<in> set xs. (0::int) \<le> x"
  shows "Max (insert 0 (set xs)) = Max (set xs)"
proof -
  from assms(1) obtain x where x: "x \<in> set xs" by (cases xs) auto
  then have "x \<le> Max (set xs)" by simp
  moreover from assms(2) x have "0 \<le> x" by simp
  ultimately have "0 \<le> Max (set xs)" by simp
  moreover have "Max (insert 0 (set xs)) = max 0 (Max (set xs))"
    using assms(1) by (intro Max_insert) simp_all
  ultimately show ?thesis by simp
qed


text \<open>
  C6. For a list of results that is not empty, each with the rows and cells of a
  punch card (as every result of \<open>analyze\<close> has), the merger returns a result whose
  scalar totals are the sums over the inputs, whose longest and current streak are the
  maximum of 0 and the inputs' values, hence the maximum across the inputs when these
  are not negative (as the streaks of \<open>analyze\<close> are), whose project details count as
  active exactly the inputs with \<open>totalCommits > 0\<close>, and whose achievements hold the
  milestone \<open>loyal-developer\<close> exactly when there is one project and it is active.
\<close>

theorem merge_sums_and_loyal:
  "results \<noteq> [] \<and> (\<forall>r \<in> set results. has_cells (punchCard (fst r))) \<longrightarrow>
     (\<exists>m d. mergeAnalysisResults h results = Inr (m, d)
        \<and> totalCommits m = sum_list (map (\<lambda>r. totalCommits (fst r)) results)
        \<and> totalInsertions m = sum_list (map (\<lambda>r. totalInsertions (fst r)) results)
        \<and> totalDeletions m = sum_list (map (\<lambda>r. totalDeletions (fst r)) results)
        \<and> netLines m = sum_list (map (\<lambda>r. netLines (fst r)) results)
        \<and> longestStreak (streakStats m) =
            Max (insert 0 (set (map (\<lambda>r. longestStreak (streakStats (fst r))) results)))
        \<and> currentStreak (streakStats m) =
            Max (insert 0 (set (map (\<lambda>r. currentStreak (streakStats (fst r))) results)))
        \<and> ((\<forall>r \<in> set results. 0 \<le> longestStreak (streakStats (fst r))) \<longrightarrow>
             longestStreak (streakStats m) =
               Max (set (map (\<lambda>r. longestStreak (streakStats (fst r))) results)))
        \<and> ((\<forall>r \<in> set results. 0 \<le> currentStreak (streakStats (fst r))) \<longrightarrow>
             currentStreak (streakStats m) =
               Max (set (map (\<lambda>r. currentStreak (streakStats (fst r))) results)))
        \<and> length d = length results
        \<and> length (filter active d) = length (filter (\<lambda>r. totalCommits (fst r) > 0) results)
        \<and> (milestone ''loyal-developer'' \<in> set (achievements m) \<longleftrightarrow>
             length results = 1 \<and> length (filter (\<lambda>r. totalCommits (fst r) > 0) results) = 1))"
proof
  assume a: "results \<noteq> [] \<and> (\<forall>r \<in> set results. has_cells (punchCard (fst r)))"
  then have ne: "results \<noteq> []" and cells: "\<forall>r \<in> set results. has_cells (punchCard (fst r))"
    by simp_all
  from merge_summary [OF ne cells, of h] obtain m d where
    r: "mergeAnalysisResults h results = Inr (m, d)"
    and tc: "totalCommits m = sum_list (map (\<lambda>r. totalCommits (fst r)) results)"
    and ti: "totalInsertions m = sum_list (map (\<lambda>r. totalInsertions (fst r)) results)"
    and td: "totalDeletions m = sum_list (map (\<lambda>r. totalDeletions (fst r)) results)"
    and nl: "netLines m = sum_list (map (\<lambda>r. netLines (fst r)) results)"
    and ls: "longestStreak (streakStats m) =
        foldl max 0 (map (\<lambda>r. longestStreak (streakStats (fst r))) results)"
    and cs: "currentStreak (streakStats m) =
        foldl max 0 (map (\<lambda>r. currentStreak (streakStats (fst r))) results)"
    and d: "d = sort_by (\<lambda>a b. d_commits b - d_commits a > 0) (map detail_of results)"
    and loyal: "milestone ''loyal-developer'' \<in> set (achievements m) \<longleftrightarrow>
         length d = 1 \<and> length (filter active d) = 1"
    by blast
  have len: "length d = length results"
    by (simp add: d length_sort_by')
  have "active (detail_of r) = (totalCommits (fst r) > 0)" for r
    by (cases r) (simp add: detail_of_def)
  then have "filter active (map detail_of results) =
      map detail_of (filter (\<lambda>r. totalCommits (fst r) > 0) results)"
    by (simp add: filter_map comp_def)
  then have act: "length (filter active d) =
      length (filter (\<lambda>r. totalCommits (fst r) > 0) results)"
    by (simp add: d length_filter_sort_by)
  have lmax: "(\<forall>r \<in> set results. 0 \<le> longestStreak (streakStats (fst r))) \<longrightarrow>
      Max (insert 0 (set (map (\<lambda>r. longestStreak (streakStats (fst r))) results))) =
      Max (set (map (\<lambda>r. longestStreak (streakStats (fst r))) results))"
    using ne by (intro impI Max_insert_zero) simp_all
  have cmax: "(\<forall>r \<in> set results. 0 \<le> currentStreak (streakStats (fst r))) \<longrightarrow>
      Max (insert 0 (set (map (\<lambda>r. currentStreak (streakStats (fst r))) results))) =
      Max (set (map (\<lambda>r. currentStreak (streakStats (fst r))) results))"
    using ne by (intro impI Max_insert_zero) simp_all
  from r tc ti td nl ls cs len act loyal lmax cmax
  show "\<exists>m d. mergeAnalysisResults h results = Inr (m, d)
        \<and> totalCommits m = sum_list (map (\<lambda>r. totalCommits (fst r)) results)
        \<and> totalInsertions m = sum_list (map (\<lambda>r. totalInsertions (fst r)) results)
        \<and> totalDeletions m = sum_list (map (\<lambda>r. totalDeletions (fst r)) results)
        \<and> netLines m = sum_list (map (\<lambda>r. netLines (fst r)) results)
        \<and> longestStreak (streakStats m) =
            Max (insert 0 (set (map (\<lambda>r. longestStreak (streakStats (fst r))) results)))
        \<and> currentStreak (streakStats m) =
            Max (insert 0 (set (map (\<lambda>r. currentStreak (streakStats (fst r))) results)))
        \<and> ((\<forall>r \<in> set results. 0 \<le> longestStreak (streakStats (fst r))) \<longrightarrow>
             longestStreak (streakStats m) =
               Max (set (map (\<lambda>r. longestStreak (streakStats (fst r))) results)))
        \<and> ((\<forall>r \<in> set results. 0 \<le> currentStreak (streakStats (fst r))) \<longrightarrow>
             currentStreak (streakStats m) =
               Max (set (map (\<lambda>r. currentStreak (streakStats (fst r))) results)))
        \<and> length d = length results
        \<and> length (filter active d) = length (filter (\<lambda>r. totalCommits (fst r) > 0) results)
        \<and> (milestone ''loyal-developer'' \<in> set (achievements m) \<longleftrightarrow>
             length results = 1 \<and> length (filter (\<lambda>r. totalCommits (fst r) > 0) results) = 1)"
    by (simp add: foldl_max)
qed



theorem merge_sums_and_loyal_witness:
  "merge_example \<noteq> []
   \<and> list_all (\<lambda>r. has_cells (punchCard (fst r))) merge_example
   \<and> map (\<lambda>r. totalCommits (fst r)) merge_example = [10, 0, 5]
   \<and> (\<exists>m d. mergeAnalysisResults utc_host merge_example = Inr (m, d)
        \<and> totalCommits m = 15 \<and> length d = 3 \<and> length (filter active d) = 2
        \<and> milestone ''loyal-developer'' \<notin> set (achievements m))"
proof -
  have hyp: "merge_example \<noteq> [] \<and> list_all (\<lambda>r. has_cells (punchCard (fst r))) merge_example"
    by code_simp
  have ev: "map (\<lambda>r. totalCommits (fst r)) merge_example = [10, 0, 5]"
    "sum_list (map (\<lambda>r. totalCommits (fst r)) merge_example) = 15"
    "length merge_example = 3"
    "length (filter (\<lambda>r. totalCommits (fst r) > 0) merge_example) = 2"
    by code_simp+
  from merge_sums_and_loyal [where results = merge_example and h = utc_host] hyp
  obtain m d where "mergeAnalysisResults utc_host merge_example = Inr (m, d)"
    "totalCommits m = sum_list (map (\<lambda>r. totalCommits (fst r)) merge_example)"
    "length d = length merge_example"
    "length (filter active d) = length (filter (\<lambda>r. totalCommits (fst r) > 0) merge_example)"
    "milestone ''loyal-developer'' \<in> set (achievements m) \<longleftrightarrow>
       length merge_example = 1
       \<and> length (filter (\<lambda>r. totalCommits (fst r) > 0) merge_example) = 1"
    by (auto simp: list_all_iff)
  with hyp ev show ?thesis by auto
qed

text \<open>
  C10. The merged \<open>totalActiveDays\<close> is the sum of the inputs' values. It is not the
  number of distinct active days: when two repositories have a commit on the same
  day, the merged value of their results is greater than the number of active days of
  their commits taken together. Two repositories with one commit each on the same day
  merge to 2 active days, while all their commits lie on 1 day.
\<close>

theorem merged_active_days_summed:
  "(results \<noteq> [] \<and> (\<forall>r \<in> set results. has_cells (punchCard (fst r))) \<longrightarrow>
      (\<exists>m d. mergeAnalysisResults h results = Inr (m, d)
         \<and> totalActiveDays (streakStats m) =
             sum_list (map (\<lambda>r. totalActiveDays (streakStats (fst r))) results)))
   \<and> (analyze h p1 cs1 = Inr r1 \<and> analyze h p2 cs2 = Inr r2
        \<and> c1 \<in> set cs1 \<and> c2 \<in> set cs2 \<and> date_key h (date c1) = date_key h (date c2) \<longrightarrow>
      (\<exists>m d. mergeAnalysisResults h [(r1, p1, n1), (r2, p2, n2)] = Inr (m, d)
         \<and> totalActiveDays (streakStats m) =
             totalActiveDays (streakStats r1) + totalActiveDays (streakStats r2)
         \<and> totalActiveDays (analyzeStreaks h (cs1 @ cs2)) < totalActiveDays (streakStats m)))"
proof (intro conjI impI)
  assume a: "results \<noteq> [] \<and> (\<forall>r \<in> set results. has_cells (punchCard (fst r)))"
  then have ne: "results \<noteq> []" and cells: "\<forall>r \<in> set results. has_cells (punchCard (fst r))"
    by simp_all
  from merge_summary [OF ne cells, of h]
  show "\<exists>m d. mergeAnalysisResults h results = Inr (m, d)
         \<and> totalActiveDays (streakStats m) =
             sum_list (map (\<lambda>r. totalActiveDays (streakStats (fst r))) results)"
    by blast
next
  assume a: "analyze h p1 cs1 = Inr r1 \<and> analyze h p2 cs2 = Inr r2
        \<and> c1 \<in> set cs1 \<and> c2 \<in> set cs2 \<and> date_key h (date c1) = date_key h (date c2)"
  let ?rs = "[(r1, p1, n1), (r2, p2, n2)]"
  from a analyze_result_shape [of h p1 cs1 r1] analyze_result_shape [of h p2 cs2 r2]
  have cells: "\<forall>r \<in> set ?rs. has_cells (punchCard (fst r))" by simp
  have ne: "?rs \<noteq> []" by simp
  from merge_summary [OF ne cells, of h] obtain m d where
    r: "mergeAnalysisResults h ?rs = Inr (m, d)"
    and t: "totalActiveDays (streakStats m) =
        sum_list (map (\<lambda>r. totalActiveDays (streakStats (fst r))) ?rs)"
    by blast
  from t have sum: "totalActiveDays (streakStats m) =
      totalActiveDays (streakStats r1) + totalActiveDays (streakStats r2)"
    by simp
  from a analyze_streakStats [of h p1 cs1 r1] analyze_streakStats [of h p2 cs2 r2]
  have "streakStats r1 = analyzeStreaks h cs1" "streakStats r2 = analyzeStreaks h cs2"
    by simp_all
  with a shared_day_fewer [of c1 cs1 c2 cs2 h] sum
  have "totalActiveDays (analyzeStreaks h (cs1 @ cs2)) < totalActiveDays (streakStats m)"
    by simp
  with r sum show "\<exists>m d. mergeAnalysisResults h ?rs = Inr (m, d)
         \<and> totalActiveDays (streakStats m) =
             totalActiveDays (streakStats r1) + totalActiveDays (streakStats r2)
         \<and> totalActiveDays (analyzeStreaks h (cs1 @ cs2)) < totalActiveDays (streakStats m)"
    by blast
qed

theorem merged_active_days_summed_witness:
  "same_day_example \<noteq> []
   \<and> list_all (\<lambda>r. has_cells (punchCard (fst r))) same_day_example
   \<and> map (\<lambda>r. totalActiveDays (streakStats (fst r))) same_day_example = [1, 1]
   \<and> totalActiveDays (analyzeStreaks utc_host ([commitA] @ [commitC])) = 1
   \<and> (\<exists>m d. mergeAnalysisResults utc_host same_day_example = Inr (m, d)
        \<and> totalActiveDays (streakStats m) = 2
        \<and> totalActiveDays (analyzeStreaks utc_host ([commitA] @ [commitC]))
            < totalActiveDays (streakStats m))"
proof -
  let ?ra = "projr (analyze utc_host ''/repos/a'' [commitA])"
  let ?rc = "projr (analyze utc_host ''/repos/c'' [commitC])"
  have hyp: "same_day_example \<noteq> []
      \<and> list_all (\<lambda>r. has_cells (punchCard (fst r))) same_day_example"
    by code_simp
  have ev: "map (\<lambda>r. totalActiveDays (streakStats (fst r))) same_day_example = [1, 1]"
    by code_simp
  have one: "totalActiveDays (analyzeStreaks utc_host ([commitA] @ [commitC])) = 1"
    by code_simp
  have ran: "\<not> isl (analyze utc_host ''/repos/a'' [commitA])
      \<and> \<not> isl (analyze utc_host ''/repos/c'' [commitC])
      \<and> date_key utc_host (date commitA) = date_key utc_host (date commitC)"
    by code_simp
  then have hyp2: "analyze utc_host ''/repos/a'' [commitA] = Inr ?ra
      \<and> analyze utc_host ''/repos/c'' [commitC] = Inr ?rc
      \<and> commitA \<in> set [commitA] \<and> commitC \<in> set [commitC]
      \<and> date_key utc_host (date commitA) = date_key utc_host (date commitC)"
    by simp
  note inst = merged_active_days_summed
    [where results = same_day_example and h = utc_host and ?p1.0 = "''/repos/a''"
       and ?cs1.0 = "[commitA]" and ?r1.0 = ?ra and ?p2.0 = "''/repos/c''" and ?cs2.0 = "[commitC]"
       and ?r2.0 = ?rc and ?c1.0 = commitA and ?c2.0 = commitC and ?n1.0 = "''a''"
       and ?n2.0 = "''c''"]
  from hyp have pre: "same_day_example \<noteq> []
      \<and> (\<forall>r \<in> set same_day_example. has_cells (punchCard (fst r)))"
    by (simp add: list_all_iff)
  from inst pre obtain m d where
    m: "mergeAnalysisResults utc_host same_day_example = Inr (m, d)"
    and s: "totalActiveDays (streakStats m) =
       sum_list (map (\<lambda>r. totalActiveDays (streakStats (fst r))) same_day_example)"
    by blast
  from inst hyp2 obtain m' d' where
    m': "mergeAnalysisResults utc_host [(?ra, ''/repos/a'', ''a''), (?rc, ''/repos/c'', ''c'')]
        = Inr (m', d')"
    and lt: "totalActiveDays (analyzeStreaks utc_host ([commitA] @ [commitC]))
        < totalActiveDays (streakStats m')"
    by blast
  from m m' have "m' = m" by (simp add: same_day_example_def)
  with lt have lt': "totalActiveDays (analyzeStreaks utc_host ([commitA] @ [commitC]))
        < totalActiveDays (streakStats m)" by simp
  from s ev have "totalActiveDays (streakStats m) = 2" by simp
  with hyp ev one m lt' show ?thesis by blast
qed

section \<open>The persona\<close>

lemma calculatePersona_reads:
  "calculatePersona h stats =
     (if totalDeletions stats > totalInsertions stats then
        \<lparr>title = MinimalistTitle, description = LessIsMore\<rparr>
      else if longestStreak (streakStats stats) > 60 then
        \<lparr>title = MarathonRunner, description = MarathonText\<rparr>
      else if lateHourVolume stats \<noteq> 0 then
        \<lparr>title = NightWatch, description = NightStar\<rparr>
      else
        \<lparr>title =
           (if totalCommits stats > 1000 then
              (if netLines stats > 50000 then CodeCreator else FullStackArtist)
            else if totalCommits stats > 500 then
              (if longestStreak (streakStats stats) > 30 then PersistentMaster
               else SeniorDeveloper)
            else if totalCommits stats > 100 then Engineer (topLanguage stats)
            else Apprentice),
         description = YearSummary (getFullYear h) (totalCommits stats) (netLines stats)\<rparr>)"
  by (simp add: calculatePersona_def Let_def topLanguage_def lateHourVolume_def
      split: option.splits)


text \<open>
  C8, as the claim states it, fails: the description of the default branch embeds
  \<open>new Date().getFullYear()\<close>, so the same statistics give another description in
  another year.
\<close>

theorem persona_year_counterexample:
  "calculatePersona utc_host busy_stats =
     \<lparr>title = Engineer ''Code'', description = YearSummary 2024 150 600\<rparr>
   \<and> calculatePersona next_year_host busy_stats =
     \<lparr>title = Engineer ''Code'', description = YearSummary 2025 150 600\<rparr>
   \<and> calculatePersona utc_host busy_stats \<noteq> calculatePersona next_year_host busy_stats"
  by code_simp

text \<open>
  C8, amended. The persona is a function of the statistics and of the year the clock
  shows: two calls in the same year with the same total commits, net lines, longest
  streak, top language, answer to whether the deletions exceed the insertions, and
  volume of hour 23 return the same title and description; the title does not depend
  on the year.
\<close>

theorem persona_determined:
  "(totalCommits a = totalCommits b \<and> netLines a = netLines b
      \<and> longestStreak (streakStats a) = longestStreak (streakStats b)
      \<and> topLanguage a = topLanguage b
      \<and> (totalDeletions a > totalInsertions a) = (totalDeletions b > totalInsertions b)
      \<and> lateHourVolume a = lateHourVolume b
      \<and> getFullYear h = getFullYear h' \<longrightarrow>
    calculatePersona h a = calculatePersona h' b)
   \<and> title (calculatePersona h a) = title (calculatePersona h' a)"
  by (simp add: calculatePersona_reads)

theorem persona_determined_witness:
  "totalCommits busy_stats = totalCommits (busy_stats\<lparr>totalInsertions := 1000, totalDeletions := 400\<rparr>)
   \<and> getFullYear utc_host = getFullYear (utc_host\<lparr>Date_now := 1718000000000\<rparr>)
   \<and> calculatePersona utc_host busy_stats =
       calculatePersona (utc_host\<lparr>Date_now := 1718000000000\<rparr>)
         (busy_stats\<lparr>totalInsertions := 1000, totalDeletions := 400\<rparr>)
   \<and> title (calculatePersona utc_host busy_stats) =
       title (calculatePersona next_year_host busy_stats)"
proof -
  let ?b = "busy_stats\<lparr>totalInsertions := 1000, totalDeletions := 400\<rparr>"
  let ?h = "utc_host\<lparr>Date_now := 1718000000000\<rparr>"
  have hyp: "totalCommits busy_stats = totalCommits ?b
      \<and> netLines busy_stats = netLines ?b
      \<and> longestStreak (streakStats busy_stats) = longestStreak (streakStats ?b)
      \<and> topLanguage busy_stats = topLanguage ?b
      \<and> (totalDeletions busy_stats > totalInsertions busy_stats) =
          (totalDeletions ?b > totalInsertions ?b)
      \<and> lateHourVolume busy_stats = lateHourVolume ?b
      \<and> getFullYear utc_host = getFullYear ?h"
    by code_simp
  from persona_determined [where a = busy_stats and b = ?b and h = utc_host and h' = ?h]
  have same: "calculatePersona utc_host busy_stats = calculatePersona ?h ?b"
    using hyp by blast
  from persona_determined [where a = busy_stats and h = utc_host and h' = next_year_host]
  have ttl: "title (calculatePersona utc_host busy_stats) =
      title (calculatePersona next_year_host busy_stats)"
    by blast
  from hyp same ttl show ?thesis by blast
qed

end
